theory Spec2Isabelle
  imports Complex_Main
begin

section \<open>Data model (types)\<close>

text \<open>
  The scoring core of the repository works on JavaScript numbers, strings and plain objects.
  A \<open>number\<close> is modelled as a real: arithmetic is exact, the rounding of IEEE doubles is
  not modelled, and a division whose divisor may be zero is written out where it occurs.
  A field of type \<open>number | null\<close> is a \<open>number option\<close>. The string-literal unions
  (\<open>TaxStatus\<close>, \<open>ListingStatus\<close>, \<open>TransactLevel\<close>) stay strings, as they are at run
  time. A string is a list of 8-bit characters: whitespace and letter case are those of ASCII.
  Of \<open>Property\<close>, the fields that the scorers, the ranking service and the ingestion filter
  read are kept; where a field name would clash with a local variable of the source or with
  a field of another interface it gets a prefix; the two interfaces that both have \<open>lat\<close>, \<open>lng\<close>, \<open>features\<close> or
  \<open>sqft\<close> get a prefix on the intent's side.
\<close>

type_synonym number = real

record PermitRecord =
  permit_type :: string
  permit_date :: string
  permit_description :: string
  permit_value :: "number option"

record Property =
  address :: string
  lat :: number
  lng :: number
  bedrooms :: number
  bathrooms :: number
  sqft :: number
  yearBuilt :: "number option"
  architecturalStyle :: "string option"
  features :: "string list"
  estimatedValue :: "number option"
  absenteeOwner :: bool
  ownershipYears :: "number option"
  equityEstimate :: "number option"
  taxStatus :: string
  permitHistory :: "PermitRecord list"
  listingStatus :: string
  listingPrice :: "number option"

text \<open>The \<open>{ min: number | null; max: number | null }\<close> objects of \<open>ParsedIntent\<close>.\<close>

record Range =
  range_min :: "number option"
  range_max :: "number option"

record LocationTarget =
  loc_name :: string
  loc_lat :: number
  loc_lng :: number
  radiusMiles :: number

record ParsedIntent =
  styles :: "string list"
  intent_features :: "string list"
  budget :: Range
  locations :: "LocationTarget list"
  beds :: Range
  baths :: Range
  intent_sqft :: Range
  propertyTypes :: "string list"
  lifestyleTags :: "string list"
  summary :: string

text \<open>
  A \<open>MatchFactor\<close> without its \<open>reason\<close> text: the reasons of the sub-scorers interpolate
  formatted numbers (\<open>toFixed\<close>) and are not modelled.
\<close>

record MatchFactor =
  factor_name :: string
  factor_score :: number
  matched :: bool

record MatchExplanation =
  overallReason :: string
  factors :: "MatchFactor list"

record MatchResult =
  result_score :: number
  explanation :: MatchExplanation

record SearchResult =
  sr_property :: Property
  matchScore :: number
  transactScore :: string
  matchExplanation :: MatchExplanation

record SearchPage =
  results :: "SearchResult list"
  total :: nat
  sp_page :: number
  pageSize :: nat

text \<open>The only exception the scoring core can raise on well-typed input.\<close>

datatype error = TypeError

section \<open>Likelihood-to-transact score (transactScore.ts)\<close>

text \<open>
  Each rule that fires pushes a signal text; the texts interpolate numbers, so a signal is
  represented by the rule that produced it. The score starts at 0 and only integer literals
  are added to it: it is an integer.
\<close>

datatype signal =
  OwnerOver10 | LongTermOwner | AbsenteeSignal | HighEquity | TaxDelinquent
  | RecentNearbySales | NoRecentPermits | OffMarketSignal

record TransactResult =
  score :: int
  level :: string
  signals :: "signal list"

text \<open>\<open>score += n; signals.push(s)\<close> on the pair of the two local variables.\<close>

definition fire :: "int \<Rightarrow> signal \<Rightarrow> int \<times> signal list \<Rightarrow> int \<times> signal list" where
  "fire n s st = (fst st + n, snd st @ [s])"

text \<open>
  \<open>CURRENT_YEAR\<close> is \<open>new Date().getFullYear()\<close>, read once when the module loads, and
  \<open>getFullYear d\<close> stands for \<open>new Date(d).getFullYear()\<close>, which is \<open>NaN\<close> (here \<open>None\<close>)
  for a text that is not a date; both are parameters. \<open>recentNearbySales\<close> is an optional
  argument: \<open>None\<close> when the caller does not pass it.
\<close>

definition homeAge :: "int \<Rightarrow> Property \<Rightarrow> number option" where
  "homeAge CURRENT_YEAR property =
     (case yearBuilt property of
        None \<Rightarrow> None
      | Some y \<Rightarrow> if y \<noteq> 0 then Some (of_int CURRENT_YEAR - y) else None)"

definition hasRecentPermits :: "int \<Rightarrow> (string \<Rightarrow> int option) \<Rightarrow> Property \<Rightarrow> bool" where
  "hasRecentPermits CURRENT_YEAR getFullYear property =
     list_ex (\<lambda>permit. case getFullYear (permit_date permit) of
                          None \<Rightarrow> False
                        | Some permitYear \<Rightarrow> CURRENT_YEAR - permitYear \<le> 5)
       (permitHistory property)"

definition levelOf :: "int \<Rightarrow> string" where
  "levelOf s = (if s \<ge> 61 then ''high'' else if s \<ge> 31 then ''medium'' else ''low'')"

text \<open>
  The body of \<open>computeTransactScore\<close> is a sequence of \<open>if\<close> blocks over the two local
  variables; each block is one function on their pair, in the order of the source.
\<close>

definition ownershipDuration :: "Property \<Rightarrow> int \<times> signal list \<Rightarrow> int \<times> signal list" where
  "ownershipDuration property st =
     (case ownershipYears property of
        None \<Rightarrow> st
      | Some y \<Rightarrow>
          if y > 10
          then (let st' = fire 20 OwnerOver10 st
                in if y > 15 then fire 10 LongTermOwner st' else st')
          else st)"

definition absentee :: "Property \<Rightarrow> int \<times> signal list \<Rightarrow> int \<times> signal list" where
  "absentee property st = (if absenteeOwner property then fire 15 AbsenteeSignal st else st)"

definition highEquity :: "Property \<Rightarrow> int \<times> signal list \<Rightarrow> int \<times> signal list" where
  "highEquity property st =
     (case equityEstimate property of
        None \<Rightarrow> st
      | Some e \<Rightarrow> if e > 50 then fire 10 HighEquity st else st)"

definition taxDelinquent :: "Property \<Rightarrow> int \<times> signal list \<Rightarrow> int \<times> signal list" where
  "taxDelinquent property st =
     (if taxStatus property = ''delinquent'' then fire 15 TaxDelinquent st else st)"

definition nearbySales :: "bool option \<Rightarrow> int \<times> signal list \<Rightarrow> int \<times> signal list" where
  "nearbySales recentNearbySales st =
     (if recentNearbySales = Some True then fire 5 RecentNearbySales st else st)"

definition deferredMaintenance ::
  "int \<Rightarrow> (string \<Rightarrow> int option) \<Rightarrow> Property \<Rightarrow> int \<times> signal list \<Rightarrow> int \<times> signal list" where
  "deferredMaintenance CURRENT_YEAR getFullYear property st =
     (case homeAge CURRENT_YEAR property of
        None \<Rightarrow> st
      | Some age \<Rightarrow>
          if \<not> hasRecentPermits CURRENT_YEAR getFullYear property \<and> age > 30
          then fire 10 NoRecentPermits st else st)"

definition offMarket :: "Property \<Rightarrow> int \<times> signal list \<Rightarrow> int \<times> signal list" where
  "offMarket property st =
     (if listingStatus property = ''off_market'' then fire 5 OffMarketSignal st else st)"

definition computeTransactScore ::
  "int \<Rightarrow> (string \<Rightarrow> int option) \<Rightarrow> Property \<Rightarrow> bool option \<Rightarrow> TransactResult" where
  "computeTransactScore CURRENT_YEAR getFullYear property recentNearbySales =
     (let st = offMarket property
                (deferredMaintenance CURRENT_YEAR getFullYear property
                  (nearbySales recentNearbySales
                    (taxDelinquent property
                      (highEquity property
                        (absentee property
                          (ownershipDuration property (0, [])))))));
          capped = min 100 (fst st)
      in \<lparr> score = capped, level = levelOf capped, signals = snd st \<rparr>)"

section \<open>Architectural style similarity (styleMap.ts)\<close>

definition STYLE_SIMILARITY :: "(string \<times> string list) list" where
  "STYLE_SIMILARITY =
    [(''mid-century modern'',
        [''modern'', ''contemporary'', ''atomic ranch'', ''retro modern'', ''post and beam'']),
     (''modern'',
        [''mid-century modern'', ''contemporary'', ''minimalist'', ''international style'']),
     (''contemporary'',
        [''modern'', ''mid-century modern'', ''northwest contemporary'', ''minimalist'']),
     (''northwest contemporary'',
        [''contemporary'', ''modern'', ''pacific northwest'', ''northwest lodge'']),
     (''craftsman'',
        [''bungalow'', ''arts and crafts'', ''american foursquare'', ''seattle box'']),
     (''bungalow'', [''craftsman'', ''arts and crafts'', ''cottage'']),
     (''arts and crafts'', [''craftsman'', ''bungalow'', ''mission'']),
     (''colonial'',
        [''dutch colonial'', ''georgian'', ''federal'', ''cape cod'', ''traditional'']),
     (''dutch colonial'', [''colonial'', ''traditional'', ''cape cod'']),
     (''tudor'', [''english cottage'', ''storybook'', ''traditional'', ''european'']),
     (''victorian'', [''queen anne'', ''italianate'', ''painted lady'', ''ornate'']),
     (''queen anne'', [''victorian'', ''painted lady'', ''italianate'']),
     (''farmhouse'', [''modern farmhouse'', ''country'', ''ranch'', ''rural'']),
     (''modern farmhouse'', [''farmhouse'', ''contemporary'', ''transitional'']),
     (''ranch'', [''rambler'', ''split level'', ''mid-century modern'', ''atomic ranch'']),
     (''split level'', [''ranch'', ''rambler'', ''tri-level'']),
     (''cape cod'', [''colonial'', ''traditional'', ''cottage'', ''new england'']),
     (''cottage'', [''bungalow'', ''cape cod'', ''english cottage'', ''storybook'']),
     (''english cottage'', [''cottage'', ''tudor'', ''storybook'']),
     (''mediterranean'', [''spanish'', ''mission'', ''italian villa'', ''tuscan'']),
     (''spanish'', [''mediterranean'', ''mission'', ''spanish colonial'']),
     (''mission'', [''spanish'', ''mediterranean'', ''arts and crafts'']),
     (''pacific northwest'',
        [''northwest contemporary'', ''northwest lodge'', ''contemporary'']),
     (''northwest lodge'', [''pacific northwest'', ''northwest contemporary'', ''cabin'']),
     (''minimalist'', [''modern'', ''contemporary'', ''scandinavian'']),
     (''scandinavian'', [''minimalist'', ''modern'', ''nordic'']),
     (''transitional'', [''traditional'', ''contemporary'', ''modern farmhouse'']),
     (''traditional'', [''colonial'', ''transitional'', ''cape cod'', ''georgian'']),
     (''seattle box'', [''craftsman'', ''american foursquare'']),
     (''american foursquare'', [''craftsman'', ''seattle box'', ''traditional'']),
     (''cabin'', [''northwest lodge'', ''rustic'', ''log home'']),
     (''rustic'', [''cabin'', ''log home'', ''farmhouse'']),
     (''townhouse'', [''urban'', ''row house'']),
     (''industrial'', [''loft'', ''modern'', ''urban'']),
     (''loft'', [''industrial'', ''urban'', ''modern''])]"

text \<open>
  \<open>style.trim().toLowerCase().replace(/\s+/g, " ")\<close>. The white space of \<open>trim\<close> and of
  \<open>\s\<close> is, within ASCII, tab, line feed, vertical tab, form feed, carriage return and space.
\<close>

definition isSpace :: "char \<Rightarrow> bool" where
  "isSpace c \<longleftrightarrow> c \<in> set [CHR 0x09, CHR 0x0A, CHR 0x0B, CHR 0x0C, CHR 0x0D, CHR '' '']"

definition trim :: "string \<Rightarrow> string" where
  "trim s = rev (dropWhile isSpace (rev (dropWhile isSpace s)))"

definition lowerChar :: "char \<Rightarrow> char" where
  "lowerChar c =
     (let n = (of_char c :: nat) in if 65 \<le> n \<and> n \<le> 90 then char_of (n + 32) else c)"

definition toLowerCase :: "string \<Rightarrow> string" where
  "toLowerCase s = map lowerChar s"

function collapseSpaces :: "string \<Rightarrow> string" where
  "collapseSpaces [] = []"
| "collapseSpaces (c # cs) =
     (if isSpace c then CHR '' '' # collapseSpaces (dropWhile isSpace cs)
      else c # collapseSpaces cs)"
  by pat_completeness auto
termination
  by (relation "measure length") (auto simp: length_dropWhile_le less_Suc_eq_le)

definition normalizeStyle :: "string \<Rightarrow> string" where
  "normalizeStyle style = collapseSpaces (toLowerCase (trim style))"

text \<open>
  \<open>STYLE_SIMILARITY[k] ?? []\<close>. The table is an object literal, so a key that it does not
  own is looked up on \<open>Object.prototype\<close>: of the names defined there, \<open>constructor\<close> and
  \<open>__proto__\<close> are the two in lower case, the only ones a normalized style can equal. For
  them the lookup yields an object that is not an array and has no method \<open>includes\<close>, and
  the call of \<open>includes\<close> on it raises a \<open>TypeError\<close>.
\<close>

datatype related = Related "string list" | Inherited

definition lookupRelated :: "string \<Rightarrow> related" where
  "lookupRelated k =
     (if k = ''constructor'' \<or> k = ''__proto__'' then Inherited
      else case map_of STYLE_SIMILARITY k of None \<Rightarrow> Related [] | Some xs \<Rightarrow> Related xs)"

definition includesStyle :: "related \<Rightarrow> string \<Rightarrow> error + bool" where
  "includesStyle r x = (case r of Related xs \<Rightarrow> Inr (x \<in> set xs) | Inherited \<Rightarrow> Inl TypeError)"

definition styleSimilarity :: "string \<Rightarrow> string \<Rightarrow> error + number" where
  "styleSimilarity styleA styleB =
     (let a = normalizeStyle styleA; b = normalizeStyle styleB
      in if a = b then Inr 1
         else case includesStyle (lookupRelated a) b of
                Inl e \<Rightarrow> Inl e
              | Inr True \<Rightarrow> Inr 0.5
              | Inr False \<Rightarrow>
                  (case includesStyle (lookupRelated b) a of
                     Inl e \<Rightarrow> Inl e
                   | Inr True \<Rightarrow> Inr 0.5
                   | Inr False \<Rightarrow> Inr 0))"

text \<open>The \<open>for\<close> loop of \<open>bestStyleMatch\<close>, with \<open>best\<close> as the accumulator.\<close>

fun bestStyleLoop :: "string list \<Rightarrow> string \<Rightarrow> number \<Rightarrow> error + number" where
  "bestStyleLoop [] propertyStyle best = Inr best"
| "bestStyleLoop (desired # rest) propertyStyle best =
     (case styleSimilarity desired propertyStyle of
        Inl e \<Rightarrow> Inl e
      | Inr s \<Rightarrow>
          (let best' = (if s > best then s else best)
           in if best' = 1 then Inr best' else bestStyleLoop rest propertyStyle best'))"

definition bestStyleMatch :: "string list \<Rightarrow> string option \<Rightarrow> error + number" where
  "bestStyleMatch desiredStyles propertyStyle =
     (case propertyStyle of
        None \<Rightarrow> Inr 0
      | Some ps \<Rightarrow>
          if ps = [] \<or> desiredStyles = [] then Inr 0 else bestStyleLoop desiredStyles ps 0)"

section \<open>Great-circle distance (haversine.ts)\<close>

definition EARTH_RADIUS_MILES :: number where
  "EARTH_RADIUS_MILES = 3958.8"

definition toRadians :: "number \<Rightarrow> number" where
  "toRadians degrees = degrees * (pi / 180)"

text \<open>\<open>Math.atan2(y, x)\<close> on reals; the sign of a zero is not modelled.\<close>

definition atan2 :: "number \<Rightarrow> number \<Rightarrow> number" where
  "atan2 y x =
     (if x > 0 then arctan (y / x)
      else if x < 0 then (if y \<ge> 0 then arctan (y / x) + pi else arctan (y / x) - pi)
      else if y > 0 then pi / 2
      else if y < 0 then - (pi / 2)
      else 0)"

definition haversineDistance :: "number \<Rightarrow> number \<Rightarrow> number \<Rightarrow> number \<Rightarrow> number" where
  "haversineDistance lat1 lng1 lat2 lng2 =
     (let dLat = toRadians (lat2 - lat1);
          dLng = toRadians (lng2 - lng1);
          a = sin (dLat / 2) * sin (dLat / 2) +
              cos (toRadians lat1) * cos (toRadians lat2) * sin (dLng / 2) * sin (dLng / 2);
          c = 2 * atan2 (sqrt a) (sqrt (1 - a))
      in EARTH_RADIUS_MILES * c)"

section \<open>Match score (matchScore.ts)\<close>

text \<open>The keys of \<open>BASE_WEIGHTS\<close>, in the order of the object literal.\<close>

datatype factor = Location | Budget | Style | Features | BedsBaths | Sqft

definition factorKeys :: "factor list" where
  "factorKeys = [Location, Budget, Style, Features, BedsBaths, Sqft]"

fun BASE_WEIGHTS :: "factor \<Rightarrow> number" where
  "BASE_WEIGHTS Location = 0.25"
| "BASE_WEIGHTS Budget = 0.2"
| "BASE_WEIGHTS Style = 0.2"
| "BASE_WEIGHTS Features = 0.15"
| "BASE_WEIGHTS BedsBaths = 0.1"
| "BASE_WEIGHTS Sqft = 0.1"

fun getSpecifiedFactors :: "ParsedIntent \<Rightarrow> factor \<Rightarrow> bool" where
  "getSpecifiedFactors intent Location = (length (locations intent) > 0)"
| "getSpecifiedFactors intent Budget =
     (range_min (budget intent) \<noteq> None \<or> range_max (budget intent) \<noteq> None)"
| "getSpecifiedFactors intent Style = (length (styles intent) > 0)"
| "getSpecifiedFactors intent Features = (length (intent_features intent) > 0)"
| "getSpecifiedFactors intent BedsBaths =
     (range_min (beds intent) \<noteq> None \<or> range_max (beds intent) \<noteq> None \<or>
      range_min (baths intent) \<noteq> None \<or> range_max (baths intent) \<noteq> None)"
| "getSpecifiedFactors intent Sqft =
     (range_min (intent_sqft intent) \<noteq> None \<or> range_max (intent_sqft intent) \<noteq> None)"

definition getRedistributedWeights :: "ParsedIntent \<Rightarrow> factor \<Rightarrow> number" where
  "getRedistributedWeights intent =
     (let specified = getSpecifiedFactors intent;
          specifiedKeys = filter specified factorKeys
      in if length specifiedKeys = 0 then BASE_WEIGHTS
         else
           (let totalSpecifiedWeight = foldl (\<lambda>sum k. sum + BASE_WEIGHTS k) 0 specifiedKeys
            in (\<lambda>key. if specified key then BASE_WEIGHTS key / totalSpecifiedWeight else 0)))"

subsection \<open>Location\<close>

text \<open>The body of the loop over the target locations: the score of one target.\<close>

definition locScore :: "number \<Rightarrow> number \<Rightarrow> number" where
  "locScore distance radius =
     (if distance \<le> 0.1 then 100
      else if distance \<le> radius then max 0 (100 - (distance / radius) * 40)
      else if distance \<le> radius * 2 then max 0 (60 * (1 - (distance - radius) / radius))
      else 0)"

definition targetScore :: "Property \<Rightarrow> LocationTarget \<Rightarrow> number" where
  "targetScore property loc =
     (let dist = haversineDistance (lat property) (lng property) (loc_lat loc) (loc_lng loc);
          radius = (if radiusMiles loc = 0 then 2 else radiusMiles loc)
      in locScore dist radius)"

definition scoreLocation :: "Property \<Rightarrow> ParsedIntent \<Rightarrow> number" where
  "scoreLocation property intent =
     (if length (locations intent) = 0 then 50
      else foldl (\<lambda>bestScore loc.
                    let s = targetScore property loc
                    in if s > bestScore then s else bestScore)
             0 (locations intent))"

subsection \<open>Budget\<close>

text \<open>
  \<open>Math.max(0, 100 * (1 - num / den))\<close> where \<open>num\<close> is positive, as it is at each of its
  uses (the ratio is computed under the test that the bound is violated). For a divisor
  \<open>0\<close> the quotient is \<open>Infinity\<close>, the product \<open>-Infinity\<close> and the maximum \<open>0\<close>.
\<close>

definition linearDecay :: "number \<Rightarrow> number \<Rightarrow> number" where
  "linearDecay num den = (if den = 0 then 0 else max 0 (100 * (1 - num / den)))"

definition scoreBudget :: "Property \<Rightarrow> ParsedIntent \<Rightarrow> number" where
  "scoreBudget property intent =
     (let price = (case listingPrice property of
                     Some v \<Rightarrow> Some v
                   | None \<Rightarrow> estimatedValue property)
      in case price of
           None \<Rightarrow> 50
         | Some price \<Rightarrow>
             if price = 0 then 50
             else
               (let mn = range_min (budget intent); mx = range_max (budget intent)
                in if mn = None \<and> mx = None then 50
                   else
                     (let s0 = 100;
                          s1 = (case mx of
                                  None \<Rightarrow> s0
                                | Some m \<Rightarrow> if price > m then linearDecay (price - m) m else s0)
                      in case mn of
                           None \<Rightarrow> s1
                         | Some m \<Rightarrow>
                             if price < m then min s1 (linearDecay (m - price) m) else s1)))"

subsection \<open>Style\<close>

definition scoreStyle :: "Property \<Rightarrow> ParsedIntent \<Rightarrow> error + number" where
  "scoreStyle property intent =
     (if length (styles intent) = 0 then Inr 50
      else if architecturalStyle property = None \<or> architecturalStyle property = Some []
      then Inr 25
      else case bestStyleMatch (styles intent) (architecturalStyle property) of
             Inl e \<Rightarrow> Inl e
           | Inr similarity \<Rightarrow>
               Inr (if similarity = 1 then 100 else if similarity \<ge> 0.5 then 50 else 0))"

subsection \<open>Features\<close>

text \<open>\<open>s.includes(t)\<close>: \<open>t\<close> occurs in \<open>s\<close> as a contiguous piece.\<close>

fun startsWith :: "string \<Rightarrow> string \<Rightarrow> bool" where
  "startsWith s [] = True"
| "startsWith [] (d # t) = False"
| "startsWith (c # s) (d # t) = (c = d \<and> startsWith s t)"

fun includesText :: "string \<Rightarrow> string \<Rightarrow> bool" where
  "includesText [] t = (t = [])"
| "includesText (c # s) t = (startsWith (c # s) t \<or> includesText s t)"

definition featureFound :: "string list \<Rightarrow> string \<Rightarrow> bool" where
  "featureFound propertyFeatures desired =
     (let normalized = normalizeStyle desired
      in list_ex (\<lambda>pf. includesText pf normalized \<or> includesText normalized pf) propertyFeatures)"

definition scoreFeatures :: "Property \<Rightarrow> ParsedIntent \<Rightarrow> number" where
  "scoreFeatures property intent =
     (if length (intent_features intent) = 0 then 50
      else
        (let propertyFeatures = map normalizeStyle (features property);
             matchCount = foldl (\<lambda>n desired. if featureFound propertyFeatures desired
                                              then n + 1 else n)
                            (0::nat) (intent_features intent)
         in (real matchCount / real (length (intent_features intent))) * 100))"

subsection \<open>Beds and baths\<close>

definition countScore :: "number \<Rightarrow> number" where
  "countScore diff =
     (if diff = 0 then 100 else if diff \<le> 1 then 100 else if diff \<le> 2 then 50 else 0)"

definition scoreBedsBaths :: "Property \<Rightarrow> ParsedIntent \<Rightarrow> number" where
  "scoreBedsBaths property intent =
     (let bedsSpecified =
            (range_min (beds intent) \<noteq> None \<or> range_max (beds intent) \<noteq> None);
          bathsSpecified =
            (range_min (baths intent) \<noteq> None \<or> range_max (baths intent) \<noteq> None)
      in if \<not> bedsSpecified \<and> \<not> bathsSpecified then 50
         else
           (let bedScore =
                  (if bedsSpecified
                   then
                     (let targetBeds =
                            (case range_min (beds intent) of
                               Some t \<Rightarrow> t
                             | None \<Rightarrow> (case range_max (beds intent) of
                                           Some t \<Rightarrow> t
                                         | None \<Rightarrow> bedrooms property));
                          b0 = countScore \<bar>bedrooms property - targetBeds\<bar>
                      in case range_min (beds intent) of
                           None \<Rightarrow> b0
                         | Some m \<Rightarrow>
                             if bedrooms property < m
                             then (let belowDiff = m - bedrooms property
                                   in if belowDiff > 2 then 0
                                      else if belowDiff > 1 then min b0 50
                                      else b0)
                             else b0)
                   else 50);
                bathScore =
                  (if bathsSpecified
                   then
                     (let targetBaths =
                            (case range_min (baths intent) of
                               Some t \<Rightarrow> t
                             | None \<Rightarrow> (case range_max (baths intent) of
                                           Some t \<Rightarrow> t
                                         | None \<Rightarrow> bathrooms property))
                      in countScore \<bar>bathrooms property - targetBaths\<bar>)
                   else 50)
            in (bedScore + bathScore) / 2))"

subsection \<open>Square footage\<close>

definition scoreSqft :: "Property \<Rightarrow> ParsedIntent \<Rightarrow> number" where
  "scoreSqft property intent =
     (if range_min (intent_sqft intent) = None \<and> range_max (intent_sqft intent) = None
      then 50
      else if sqft property = 0 then 50
      else
        (case (range_min (intent_sqft intent), range_max (intent_sqft intent)) of
           (Some mn, Some mx) \<Rightarrow>
             if sqft property \<ge> mn \<and> sqft property \<le> mx then 100
             else if sqft property < mn then linearDecay (mn - sqft property) mn
             else linearDecay (sqft property - mx) mx
         | (Some mn, None) \<Rightarrow>
             if sqft property < mn then linearDecay (mn - sqft property) mn else 100
         | (None, Some mx) \<Rightarrow>
             if sqft property > mx then linearDecay (sqft property - mx) mx else 100
         | (None, None) \<Rightarrow> 100))"

subsection \<open>Aggregation\<close>

text \<open>\<open>Math.round(x * 100) / 100\<close>; \<open>Math.round\<close> rounds a half up.\<close>

definition round2 :: "number \<Rightarrow> number" where
  "round2 x = of_int \<lfloor>x * 100 + 1 / 2\<rfloor> / 100"

fun join :: "string list \<Rightarrow> string \<Rightarrow> string" where
  "join [] sep = []"
| "join [x] sep = x"
| "join (x # y # ys) sep = x @ sep @ join (y # ys) sep"

definition lowerNames :: "MatchFactor list \<Rightarrow> string" where
  "lowerNames fs = join (map (\<lambda>f. toLowerCase (factor_name f)) fs) '', ''"

definition summarize :: "MatchFactor list \<Rightarrow> string" where
  "summarize fs =
     (let strongFactors = filter (\<lambda>f. factor_score f \<ge> 75) fs;
          weakFactors = filter (\<lambda>f. factor_score f < 50) fs
      in if length strongFactors \<ge> 4 then ''Strong match across '' @ lowerNames strongFactors
         else if length strongFactors \<ge> 2
         then ''Good match on '' @ lowerNames strongFactors @
              (if length weakFactors > 0 then ''; weaker on '' @ lowerNames weakFactors
               else [])
         else if length strongFactors \<ge> 1
         then ''Partial match: strong on '' @ toLowerCase (factor_name (hd strongFactors))
         else ''Weak match across most factors'')"

definition mkFactor :: "string \<Rightarrow> number \<Rightarrow> number \<Rightarrow> MatchFactor" where
  "mkFactor name s weight =
     \<lparr> factor_name = name, factor_score = s, matched = (weight > 0 \<and> s \<ge> 50) \<rparr>"

definition computeMatchScore :: "Property \<Rightarrow> ParsedIntent \<Rightarrow> error + MatchResult" where
  "computeMatchScore property intent =
     (let weights = getRedistributedWeights intent;
          locationResult = scoreLocation property intent;
          budgetResult = scoreBudget property intent
      in case scoreStyle property intent of
           Inl e \<Rightarrow> Inl e
         | Inr styleResult \<Rightarrow>
             (let featuresResult = scoreFeatures property intent;
                  bedsBathsResult = scoreBedsBaths property intent;
                  sqftResult = scoreSqft property intent;
                  fs = [mkFactor ''Location'' locationResult (weights Location),
                        mkFactor ''Budget'' budgetResult (weights Budget),
                        mkFactor ''Style'' styleResult (weights Style),
                        mkFactor ''Features'' featuresResult (weights Features),
                        mkFactor ''Beds/Baths'' bedsBathsResult (weights BedsBaths),
                        mkFactor ''Sqft'' sqftResult (weights Sqft)];
                  overallScore =
                    locationResult * weights Location +
                    budgetResult * weights Budget +
                    styleResult * weights Style +
                    featuresResult * weights Features +
                    bedsBathsResult * weights BedsBaths +
                    sqftResult * weights Sqft
              in Inr \<lparr> result_score = round2 overallScore,
                       explanation = \<lparr> overallReason = summarize fs, factors = fs \<rparr> \<rparr>))"

section \<open>Ranking and pagination (properties.ts)\<close>

definition MIN_MATCH_SCORE :: number where
  "MIN_MATCH_SCORE = 25"

definition PAGE_SIZE :: nat where
  "PAGE_SIZE = 25"

definition transactToNumeric :: "string \<Rightarrow> number" where
  "transactToNumeric lv =
     (if lv = ''high'' then 100
      else if lv = ''medium'' then 50
      else if lv = ''low'' then 20
      else 0)"

text \<open>The value that the comparator of the sort computes for each of its two arguments.\<close>

definition weighted :: "SearchResult \<Rightarrow> number" where
  "weighted r = 0.7 * matchScore r + 0.3 * transactToNumeric (transactScore r)"

text \<open>
  \<open>properties.map(...)\<close>: an exception raised while one property is scored leaves the
  whole call without a result.
\<close>

fun scoreAll ::
  "int \<Rightarrow> (string \<Rightarrow> int option) \<Rightarrow> ParsedIntent \<Rightarrow> Property list \<Rightarrow> error + SearchResult list"
  where
  "scoreAll CURRENT_YEAR getFullYear intent [] = Inr []"
| "scoreAll CURRENT_YEAR getFullYear intent (property # rest) =
     (case computeMatchScore property intent of
        Inl e \<Rightarrow> Inl e
      | Inr m \<Rightarrow>
          (let r = \<lparr> sr_property = property,
                     matchScore = result_score m,
                     transactScore =
                       level (computeTransactScore CURRENT_YEAR getFullYear property None),
                     matchExplanation = explanation m \<rparr>
           in case scoreAll CURRENT_YEAR getFullYear intent rest of
                Inl e \<Rightarrow> Inl e
              | Inr rs \<Rightarrow> Inr (r # rs)))"

text \<open>
  \<open>Array.prototype.slice(start, end)\<close>: both arguments are truncated to integers, a
  negative one counts from the end of the array, and both are clamped to its bounds.
\<close>

definition toIntegerOrInfinity :: "number \<Rightarrow> int" where
  "toIntegerOrInfinity x = (if x \<ge> 0 then \<lfloor>x\<rfloor> else \<lceil>x\<rceil>)"

definition relativeIndex :: "nat \<Rightarrow> int \<Rightarrow> nat" where
  "relativeIndex len i = (if i < 0 then nat (max (int len + i) 0) else min (nat i) len)"

definition slice :: "'a list \<Rightarrow> number \<Rightarrow> number \<Rightarrow> 'a list" where
  "slice xs start fin =
     (let k = relativeIndex (length xs) (toIntegerOrInfinity start);
          final = relativeIndex (length xs) (toIntegerOrInfinity fin)
      in take (final - k) (drop k xs))"

text \<open>
  \<open>searchProperties\<close> on the collection that \<open>getProperties\<close> has loaded. The comparator
  \<open>weightedB - weightedA\<close> orders by decreasing \<open>weighted\<close>, and \<open>Array.prototype.sort\<close> is
  stable: it is the stable insertion sort of the list library on the negated key.
\<close>

definition searchProperties ::
  "int \<Rightarrow> (string \<Rightarrow> int option) \<Rightarrow> Property list \<Rightarrow> ParsedIntent \<Rightarrow> number
   \<Rightarrow> error + SearchPage" where
  "searchProperties CURRENT_YEAR getFullYear properties intent page =
     (case scoreAll CURRENT_YEAR getFullYear intent properties of
        Inl e \<Rightarrow> Inl e
      | Inr scored \<Rightarrow>
          (let filtered = filter (\<lambda>r. matchScore r \<ge> MIN_MATCH_SCORE) scored;
               ranked = sort_key (\<lambda>r. - weighted r) filtered;
               offset = (page - 1) * real PAGE_SIZE
           in Inr \<lparr> results = slice ranked offset (offset + real PAGE_SIZE),
                    total = length ranked,
                    sp_page = page,
                    pageSize = PAGE_SIZE \<rparr>))"

section \<open>Ingestion filter (kingCounty.ts)\<close>

record IngestionResult =
  ingested :: "Property list"
  totalFetched :: nat
  totalTransformed :: nat
  errors :: "string list"

text \<open>
  The third step of \<open>ingestKingCountyProperties\<close>, on the parcels that the first step has
  fetched and with the errors that the second step has collected. \<open>transform\<close> stands for
  \<open>transformParcelToProperty\<close> with the sale lookup: \<open>Inl msg\<close> when it throws. A parcel
  without a centroid is transformed to the coordinates \<open>(0, 0)\<close>. The field \<open>properties\<close>
  of the result is \<open>ingested\<close> here.
\<close>

definition usable :: "Property \<Rightarrow> bool" where
  "usable prop \<longleftrightarrow> address prop \<noteq> ''Unknown'' \<and> lat prop \<noteq> 0 \<and> lng prop \<noteq> 0"

fun transformLoop ::
  "('r \<Rightarrow> string + Property) \<Rightarrow> 'r list \<Rightarrow> Property list \<times> string list
   \<Rightarrow> Property list \<times> string list" where
  "transformLoop transform [] acc = acc"
| "transformLoop transform (parcel # rest) acc =
     transformLoop transform rest
       (case transform parcel of
          Inl msg \<Rightarrow> (fst acc, snd acc @ [''Transform: '' @ msg])
        | Inr prop \<Rightarrow> if usable prop then (fst acc @ [prop], snd acc) else acc)"

definition ingestKingCountyProperties ::
  "('r \<Rightarrow> string + Property) \<Rightarrow> 'r list \<Rightarrow> string list \<Rightarrow> IngestionResult" where
  "ingestKingCountyProperties transform parcelsWithGeometry salesErrors =
     (let out = transformLoop transform parcelsWithGeometry ([], salesErrors)
      in \<lparr> ingested = fst out,
           totalFetched = length parcelsWithGeometry,
           totalTransformed = length (fst out),
           errors = snd out \<rparr>)"

section \<open>Auxiliary definitions for the proofs\<close>

text \<open>The points that each rule of the transact score adds.\<close>

fun points :: "signal \<Rightarrow> int" where
  "points OwnerOver10 = 20"
| "points LongTermOwner = 10"
| "points AbsenteeSignal = 15"
| "points HighEquity = 10"
| "points TaxDelinquent = 15"
| "points RecentNearbySales = 5"
| "points NoRecentPermits = 10"
| "points OffMarketSignal = 5"

text \<open>
  The invariant of the two local variables of \<open>computeTransactScore\<close>: the score is the sum
  of the points of the signals pushed so far, no signal is pushed twice, and only the rules in
  \<open>S\<close> have run.
\<close>

definition tally :: "signal set \<Rightarrow> int \<times> signal list \<Rightarrow> bool" where
  "tally S st \<longleftrightarrow>
     fst st = sum_list (map points (snd st)) \<and> distinct (snd st) \<and> set (snd st) \<subseteq> S"

text \<open>Concrete inputs on which the theorems are instantiated.\<close>

definition exampleProperty :: Property where
  "exampleProperty =
     \<lparr> address = ''4521 Sunnyside Ave N'', lat = 47.6615, lng = -122.3331,
       bedrooms = 3, bathrooms = 2, sqft = 1850, yearBuilt = Some 1986,
       architecturalStyle = Some ''Craftsman'', features = [''Fireplace'', ''garage''],
       estimatedValue = Some 900000, absenteeOwner = False, ownershipYears = Some 20,
       equityEstimate = None, taxStatus = ''current'', permitHistory = [],
       listingStatus = ''on_market'', listingPrice = None \<rparr>"

definition noDates :: "string \<Rightarrow> int option" where
  "noDates d = None"

definition emptyIntent :: ParsedIntent where
  "emptyIntent =
     \<lparr> styles = [], intent_features = [],
       budget = \<lparr> range_min = None, range_max = None \<rparr>,
       locations = [],
       beds = \<lparr> range_min = None, range_max = None \<rparr>,
       baths = \<lparr> range_min = None, range_max = None \<rparr>,
       intent_sqft = \<lparr> range_min = None, range_max = None \<rparr>,
       propertyTypes = [], lifestyleTags = [], summary = [] \<rparr>"

definition budgetIntent :: ParsedIntent where
  "budgetIntent = emptyIntent \<lparr> budget := \<lparr> range_min = None, range_max = Some 1000000 \<rparr> \<rparr>"

definition minSqftIntent :: ParsedIntent where
  "minSqftIntent = emptyIntent\<lparr>intent_sqft := \<lparr>range_min = Some 2000, range_max = None\<rparr>\<rparr>"

definition maxSqftIntent :: ParsedIntent where
  "maxSqftIntent = emptyIntent\<lparr>intent_sqft := \<lparr>range_min = None, range_max = Some 1200\<rparr>\<rparr>"

definition styleIntent :: ParsedIntent where
  "styleIntent = budgetIntent\<lparr>styles := [''craftsman''],
                               intent_sqft := \<lparr>range_min = Some 1500, range_max = None\<rparr>\<rparr>"

text \<open>A record of which the optional fields are missing.\<close>

definition unknownProperty :: Property where
  "unknownProperty = exampleProperty\<lparr>listingPrice := None, estimatedValue := None,
                                      architecturalStyle := None, yearBuilt := None, sqft := 0\<rparr>"

text \<open>A record with a price of 0 and a sqft of 0.\<close>

definition zeroProperty :: Property where
  "zeroProperty = exampleProperty\<lparr>listingPrice := Some 0, estimatedValue := None, sqft := 0\<rparr>"

text \<open>A buyer who wants to live within two miles of the centre of Seattle.\<close>

definition seattleTarget :: LocationTarget where
  "seattleTarget = \<lparr> loc_name = ''Seattle'', loc_lat = 47.6062, loc_lng = -122.3321,
                      radiusMiles = 2 \<rparr>"

definition seattleIntent :: ParsedIntent where
  "seattleIntent = emptyIntent \<lparr> locations := [seattleTarget] \<rparr>"

definition nowhereProperty :: Property where
  "nowhereProperty = exampleProperty \<lparr> lat := 0, lng := 0 \<rparr>"

text \<open>Three listings for the ranking: the same house at three prices.\<close>

definition midProperty :: Property where
  "midProperty = exampleProperty \<lparr> listingPrice := Some 1500000, absenteeOwner := True,
                                   taxStatus := ''delinquent'' \<rparr>"

definition dearProperty :: Property where
  "dearProperty = exampleProperty \<lparr> listingPrice := Some 2500000 \<rparr>"

section \<open>Properties of the likelihood-to-transact score\<close>

lemma tally_ownershipDuration:
  "tally S st \<Longrightarrow> OwnerOver10 \<notin> S \<Longrightarrow> LongTermOwner \<notin> S
   \<Longrightarrow> tally (insert OwnerOver10 (insert LongTermOwner S)) (ownershipDuration p st)"
  by (auto simp: tally_def fire_def ownershipDuration_def Let_def split: option.splits)

lemma tally_absentee:
  "tally S st \<Longrightarrow> AbsenteeSignal \<notin> S \<Longrightarrow> tally (insert AbsenteeSignal S) (absentee p st)"
  by (auto simp: tally_def fire_def absentee_def)

lemma tally_highEquity:
  "tally S st \<Longrightarrow> HighEquity \<notin> S \<Longrightarrow> tally (insert HighEquity S) (highEquity p st)"
  by (auto simp: tally_def fire_def highEquity_def split: option.splits)

lemma tally_taxDelinquent:
  "tally S st \<Longrightarrow> TaxDelinquent \<notin> S \<Longrightarrow> tally (insert TaxDelinquent S) (taxDelinquent p st)"
  by (auto simp: tally_def fire_def taxDelinquent_def)

lemma tally_nearbySales:
  "tally S st \<Longrightarrow> RecentNearbySales \<notin> S
   \<Longrightarrow> tally (insert RecentNearbySales S) (nearbySales r st)"
  by (auto simp: tally_def fire_def nearbySales_def)

lemma tally_deferredMaintenance:
  "tally S st \<Longrightarrow> NoRecentPermits \<notin> S
   \<Longrightarrow> tally (insert NoRecentPermits S) (deferredMaintenance cy gy p st)"
  by (auto simp: tally_def fire_def deferredMaintenance_def split: option.splits)

lemma tally_offMarket:
  "tally S st \<Longrightarrow> OffMarketSignal \<notin> S
   \<Longrightarrow> tally (insert OffMarketSignal S) (offMarket p st)"
  by (auto simp: tally_def fire_def offMarket_def)

text \<open>The returned score is the capped sum of the points of the returned signals.\<close>

lemma score_signals:
  "score (computeTransactScore cy gy p r) =
     min 100 (sum_list (map points (signals (computeTransactScore cy gy p r))))
   \<and> distinct (signals (computeTransactScore cy gy p r))"
proof -
  have "tally {} (0, [])"
    by (simp add: tally_def)
  then have "tally {OwnerOver10, LongTermOwner} (ownershipDuration p (0, []))"
    by (rule tally_ownershipDuration) simp_all
  then have "tally {AbsenteeSignal, OwnerOver10, LongTermOwner}
               (absentee p (ownershipDuration p (0, [])))"
    by (rule tally_absentee) simp
  then have "tally {HighEquity, AbsenteeSignal, OwnerOver10, LongTermOwner}
               (highEquity p (absentee p (ownershipDuration p (0, []))))"
    by (rule tally_highEquity) simp
  then have "tally {TaxDelinquent, HighEquity, AbsenteeSignal, OwnerOver10, LongTermOwner}
               (taxDelinquent p (highEquity p (absentee p (ownershipDuration p (0, [])))))"
    by (rule tally_taxDelinquent) simp
  then have "tally {RecentNearbySales, TaxDelinquent, HighEquity, AbsenteeSignal, OwnerOver10,
                    LongTermOwner}
               (nearbySales r (taxDelinquent p (highEquity p (absentee p
                  (ownershipDuration p (0, []))))))"
    by (rule tally_nearbySales) simp
  then have "tally {NoRecentPermits, RecentNearbySales, TaxDelinquent, HighEquity,
                    AbsenteeSignal, OwnerOver10, LongTermOwner}
               (deferredMaintenance cy gy p (nearbySales r (taxDelinquent p (highEquity p
                  (absentee p (ownershipDuration p (0, [])))))))"
    by (rule tally_deferredMaintenance) simp
  then have "tally {OffMarketSignal, NoRecentPermits, RecentNearbySales, TaxDelinquent,
                    HighEquity, AbsenteeSignal, OwnerOver10, LongTermOwner}
               (offMarket p (deferredMaintenance cy gy p (nearbySales r (taxDelinquent p
                  (highEquity p (absentee p (ownershipDuration p (0, []))))))))"
    by (rule tally_offMarket) simp
  then show ?thesis
    by (simp add: computeTransactScore_def Let_def tally_def)
qed

lemma points_nonneg: "0 \<le> points s"
  by (cases s) simp_all

lemma sum_points_mono:
  assumes "distinct xs" "distinct ys" "set xs \<subseteq> set ys"
  shows "sum_list (map points xs) \<le> sum_list (map points ys)"
proof -
  have "sum_list (map points xs) = sum points (set xs)"
    using assms(1) by (simp add: sum_list_distinct_conv_sum_set)
  also have "\<dots> \<le> sum points (set ys)"
    by (rule sum_mono2) (use assms(3) points_nonneg in auto)
  also have "\<dots> = sum_list (map points ys)"
    using assms(2) by (simp add: sum_list_distinct_conv_sum_set)
  finally show ?thesis .
qed

lemmas transact_defs =
  computeTransactScore_def ownershipDuration_def absentee_def highEquity_def
  taxDelinquent_def nearbySales_def deferredMaintenance_def offMarket_def
  homeAge_def hasRecentPermits_def fire_def levelOf_def Let_def

text \<open>
  The tiers: the score is an integer from 0 to 100, and the level is \<open>low\<close> up to 30,
  \<open>medium\<close> from 31 to 60 and \<open>high\<close> from 61.
\<close>

lemma transact_tiering:
  "0 \<le> score (computeTransactScore cy gy p r) \<and> score (computeTransactScore cy gy p r) \<le> 100
   \<and> level (computeTransactScore cy gy p r) =
       (if score (computeTransactScore cy gy p r) \<le> 30 then ''low''
        else if score (computeTransactScore cy gy p r) \<le> 60 then ''medium'' else ''high'')"
proof -
  have nonneg: "0 \<le> sum_list (map points xs)" for xs
    by (induction xs) (auto simp: points_nonneg)
  have lv: "level (computeTransactScore cy gy p r) = levelOf (score (computeTransactScore cy gy p r))"
    by (simp add: computeTransactScore_def Let_def)
  show ?thesis
    using score_signals[of cy gy p r] nonneg[of "signals (computeTransactScore cy gy p r)"]
    by (auto simp: lv levelOf_def)
qed

text \<open>
  The signals returned are exactly the rules whose triggering condition holds for the
  property and the flag.
\<close>

lemma signals_fired:
  "set (signals (computeTransactScore cy gy p r)) =
     {s. (s = OwnerOver10 \<and> (\<exists>y. ownershipYears p = Some y \<and> y > 10))
       \<or> (s = LongTermOwner \<and> (\<exists>y. ownershipYears p = Some y \<and> y > 15))
       \<or> (s = AbsenteeSignal \<and> absenteeOwner p)
       \<or> (s = HighEquity \<and> (\<exists>e. equityEstimate p = Some e \<and> e > 50))
       \<or> (s = TaxDelinquent \<and> taxStatus p = ''delinquent'')
       \<or> (s = RecentNearbySales \<and> r = Some True)
       \<or> (s = NoRecentPermits \<and> \<not> hasRecentPermits cy gy p
            \<and> (\<exists>y. yearBuilt p = Some y \<and> y \<noteq> 0 \<and> of_int cy - y > 30))
       \<or> (s = OffMarketSignal \<and> listingStatus p = ''off_market'')}"
proof -
  have 1: "set (snd (ownershipDuration p st)) = set (snd st)
             \<union> {s. (s = OwnerOver10 \<and> (\<exists>y. ownershipYears p = Some y \<and> y > 10))
                  \<or> (s = LongTermOwner \<and> (\<exists>y. ownershipYears p = Some y \<and> y > 15))}" for st
    by (auto simp: ownershipDuration_def fire_def Let_def split: option.splits)
  have 2: "set (snd (absentee p st)) = set (snd st) \<union> {s. s = AbsenteeSignal \<and> absenteeOwner p}"
    for st
    by (auto simp: absentee_def fire_def)
  have 3: "set (snd (highEquity p st)) = set (snd st)
             \<union> {s. s = HighEquity \<and> (\<exists>e. equityEstimate p = Some e \<and> e > 50)}" for st
    by (auto simp: highEquity_def fire_def split: option.splits)
  have 4: "set (snd (taxDelinquent p st)) = set (snd st)
             \<union> {s. s = TaxDelinquent \<and> taxStatus p = ''delinquent''}" for st
    by (auto simp: taxDelinquent_def fire_def)
  have 5: "set (snd (nearbySales r st)) = set (snd st)
             \<union> {s. s = RecentNearbySales \<and> r = Some True}" for st
    by (auto simp: nearbySales_def fire_def)
  have 6: "set (snd (deferredMaintenance cy gy p st)) = set (snd st)
             \<union> {s. s = NoRecentPermits \<and> \<not> hasRecentPermits cy gy p
                     \<and> (\<exists>y. yearBuilt p = Some y \<and> y \<noteq> 0 \<and> of_int cy - y > 30)}" for st
    by (auto simp: deferredMaintenance_def homeAge_def fire_def split: option.splits if_splits)
  have 7: "set (snd (offMarket p st)) = set (snd st)
             \<union> {s. s = OffMarketSignal \<and> listingStatus p = ''off_market''}" for st
    by (auto simp: offMarket_def fire_def)
  have "signals (computeTransactScore cy gy p r) =
          snd (offMarket p (deferredMaintenance cy gy p (nearbySales r (taxDelinquent p
                  (highEquity p (absentee p (ownershipDuration p (0, []))))))))"
    by (simp add: computeTransactScore_def Let_def)
  then show ?thesis
    by (simp only: 7 6 5 4 3 2 1) auto
qed

text \<open>
  A property and flag for which at least the same rules fire score at least as much.
\<close>

lemma score_mono_signals:
  assumes "set (signals (computeTransactScore cy gy p r))
             \<subseteq> set (signals (computeTransactScore cy gy p' r'))"
  shows "score (computeTransactScore cy gy p r) \<le> score (computeTransactScore cy gy p' r')"
  using sum_points_mono[OF _ _ assms] score_signals[of cy gy p r] score_signals[of cy gy p' r']
  by auto

lemma hasRecentPermits_subset:
  assumes "set (permitHistory p') \<subseteq> set (permitHistory p)"
    and "hasRecentPermits cy gy p'"
  shows "hasRecentPermits cy gy p"
  using assms by (auto simp: hasRecentPermits_def list_ex_iff)

text \<open>
  Claim C6. The transact score is monotone in the triggering conditions. For every property
  \<open>p\<close> and flag \<open>r\<close>, with all other attributes and the flag held fixed, none of the
  following changes lowers the score: setting \<open>absenteeOwner\<close> to true; setting \<open>taxStatus\<close>
  to \<open>delinquent\<close>; setting \<open>listingStatus\<close> to \<open>off_market\<close>; passing
  \<open>recentNearbySales\<close> as true; raising \<open>ownershipYears\<close> (or setting it where it was null);
  raising \<open>equityEstimate\<close> (or setting it where it was null); removing permits from the
  permit history; making the house older (an earlier, nonzero \<open>yearBuilt\<close>). The score never
  exceeds 100.
\<close>

theorem computeTransactScore_monotone:
  "score (computeTransactScore cy gy p r)
     \<le> score (computeTransactScore cy gy (p\<lparr>absenteeOwner := True\<rparr>) r)
   \<and> score (computeTransactScore cy gy p r)
     \<le> score (computeTransactScore cy gy (p\<lparr>taxStatus := ''delinquent''\<rparr>) r)
   \<and> score (computeTransactScore cy gy p r)
     \<le> score (computeTransactScore cy gy (p\<lparr>listingStatus := ''off_market''\<rparr>) r)
   \<and> score (computeTransactScore cy gy p r)
     \<le> score (computeTransactScore cy gy p (Some True))
   \<and> ((\<forall>y. ownershipYears p = Some y \<longrightarrow> y \<le> y')
      \<longrightarrow> score (computeTransactScore cy gy p r)
            \<le> score (computeTransactScore cy gy (p\<lparr>ownershipYears := Some y'\<rparr>) r))
   \<and> ((\<forall>e. equityEstimate p = Some e \<longrightarrow> e \<le> e')
      \<longrightarrow> score (computeTransactScore cy gy p r)
            \<le> score (computeTransactScore cy gy (p\<lparr>equityEstimate := Some e'\<rparr>) r))
   \<and> (set permits' \<subseteq> set (permitHistory p)
      \<longrightarrow> score (computeTransactScore cy gy p r)
            \<le> score (computeTransactScore cy gy (p\<lparr>permitHistory := permits'\<rparr>) r))
   \<and> ((\<forall>b. yearBuilt p = Some b \<longrightarrow> b' \<le> b) \<and> b' \<noteq> 0
      \<longrightarrow> score (computeTransactScore cy gy p r)
            \<le> score (computeTransactScore cy gy (p\<lparr>yearBuilt := Some b'\<rparr>) r))
   \<and> score (computeTransactScore cy gy p r) \<le> 100"
proof -
  have absent: "score (computeTransactScore cy gy p r)
     \<le> score (computeTransactScore cy gy (p\<lparr>absenteeOwner := True\<rparr>) r)"
    by (rule score_mono_signals) (auto simp: signals_fired hasRecentPermits_def)
  have tax: "score (computeTransactScore cy gy p r)
     \<le> score (computeTransactScore cy gy (p\<lparr>taxStatus := ''delinquent''\<rparr>) r)"
    by (rule score_mono_signals) (auto simp: signals_fired hasRecentPermits_def)
  have off: "score (computeTransactScore cy gy p r)
     \<le> score (computeTransactScore cy gy (p\<lparr>listingStatus := ''off_market''\<rparr>) r)"
    by (rule score_mono_signals) (auto simp: signals_fired hasRecentPermits_def)
  have nearby: "score (computeTransactScore cy gy p r)
     \<le> score (computeTransactScore cy gy p (Some True))"
    by (rule score_mono_signals) (auto simp: signals_fired)
  have owned: "score (computeTransactScore cy gy p r)
            \<le> score (computeTransactScore cy gy (p\<lparr>ownershipYears := Some y'\<rparr>) r)"
    if "\<forall>y. ownershipYears p = Some y \<longrightarrow> y \<le> y'"
    by (rule score_mono_signals) (use that in \<open>auto simp: signals_fired hasRecentPermits_def\<close>)
  have equity: "score (computeTransactScore cy gy p r)
            \<le> score (computeTransactScore cy gy (p\<lparr>equityEstimate := Some e'\<rparr>) r)"
    if "\<forall>e. equityEstimate p = Some e \<longrightarrow> e \<le> e'"
    by (rule score_mono_signals) (use that in \<open>auto simp: signals_fired hasRecentPermits_def\<close>)
  have permits: "score (computeTransactScore cy gy p r)
            \<le> score (computeTransactScore cy gy (p\<lparr>permitHistory := permits'\<rparr>) r)"
    if "set permits' \<subseteq> set (permitHistory p)"
    by (rule score_mono_signals)
      (use that hasRecentPermits_subset[of "p\<lparr>permitHistory := permits'\<rparr>" p cy gy]
        in \<open>auto simp: signals_fired\<close>)
  have older: "score (computeTransactScore cy gy p r)
            \<le> score (computeTransactScore cy gy (p\<lparr>yearBuilt := Some b'\<rparr>) r)"
    if "\<forall>b. yearBuilt p = Some b \<longrightarrow> b' \<le> b" "b' \<noteq> 0"
    by (rule score_mono_signals) (use that in \<open>auto simp: signals_fired hasRecentPermits_def\<close>)
  have cap: "score (computeTransactScore cy gy p r) \<le> 100"
    using score_signals[of cy gy p r] by simp
  show ?thesis
    using absent tax off nearby owned equity permits older cap by blast
qed

text \<open>
  An owner of 20 years in a house of 1986 without permits, seen in 2026, scores 40. An
  absentee owner or a tax delinquency lifts the score to 55, an off-market status or recent
  nearby sales to 45 and an equity of 60 percent to 50; 25 years of ownership and a house of
  1980 leave it at 40, the rules having fired already.
\<close>

theorem computeTransactScore_monotone_witness:
  "score (computeTransactScore 2026 noDates exampleProperty None) = 40
   \<and> score (computeTransactScore 2026 noDates (exampleProperty\<lparr>absenteeOwner := True\<rparr>) None)
       = 55
   \<and> score (computeTransactScore 2026 noDates (exampleProperty\<lparr>taxStatus := ''delinquent''\<rparr>)
              None) = 55
   \<and> score (computeTransactScore 2026 noDates (exampleProperty\<lparr>listingStatus := ''off_market''\<rparr>)
              None) = 45
   \<and> score (computeTransactScore 2026 noDates exampleProperty (Some True)) = 45
   \<and> score (computeTransactScore 2026 noDates exampleProperty None)
       \<le> score (computeTransactScore 2026 noDates (exampleProperty\<lparr>ownershipYears := Some 25\<rparr>)
                None)
   \<and> score (computeTransactScore 2026 noDates (exampleProperty\<lparr>equityEstimate := Some 60\<rparr>)
              None) = 50
   \<and> score (computeTransactScore 2026 noDates exampleProperty None)
       \<le> score (computeTransactScore 2026 noDates (exampleProperty\<lparr>permitHistory := []\<rparr>) None)
   \<and> score (computeTransactScore 2026 noDates exampleProperty None)
       \<le> score (computeTransactScore 2026 noDates (exampleProperty\<lparr>yearBuilt := Some 1980\<rparr>)
                None)"
proof -
  have h: "\<forall>y. ownershipYears exampleProperty = Some y \<longrightarrow> y \<le> 25"
    "\<forall>e. equityEstimate exampleProperty = Some e \<longrightarrow> e \<le> 60"
    "set [] \<subseteq> set (permitHistory exampleProperty)"
    "(\<forall>b. yearBuilt exampleProperty = Some b \<longrightarrow> 1980 \<le> b) \<and> (1980::real) \<noteq> 0"
    by (simp_all add: exampleProperty_def)
  from computeTransactScore_monotone
         [of 2026 noDates exampleProperty None 25 60 "[]" 1980] h
  have m: "score (computeTransactScore 2026 noDates exampleProperty None)
       \<le> score (computeTransactScore 2026 noDates (exampleProperty\<lparr>ownershipYears := Some 25\<rparr>)
                None)
     \<and> score (computeTransactScore 2026 noDates exampleProperty None)
       \<le> score (computeTransactScore 2026 noDates (exampleProperty\<lparr>permitHistory := []\<rparr>) None)
     \<and> score (computeTransactScore 2026 noDates exampleProperty None)
       \<le> score (computeTransactScore 2026 noDates (exampleProperty\<lparr>yearBuilt := Some 1980\<rparr>)
                None)"
    by blast
  have v: "score (computeTransactScore 2026 noDates exampleProperty None) = 40"
    "score (computeTransactScore 2026 noDates (exampleProperty\<lparr>absenteeOwner := True\<rparr>) None)
       = 55"
    "score (computeTransactScore 2026 noDates (exampleProperty\<lparr>taxStatus := ''delinquent''\<rparr>)
              None) = 55"
    "score (computeTransactScore 2026 noDates (exampleProperty\<lparr>listingStatus := ''off_market''\<rparr>)
              None) = 45"
    "score (computeTransactScore 2026 noDates exampleProperty (Some True)) = 45"
    "score (computeTransactScore 2026 noDates (exampleProperty\<lparr>equityEstimate := Some 60\<rparr>)
              None) = 50"
    by (simp_all add: transact_defs exampleProperty_def)
  from m v show ?thesis by blast
qed

text \<open>
  Claim C7. A property owned for 20 years by an absentee owner, tax delinquent, built 40 years
  before the current year, without permits and with no other rule firing scores
  \<open>20 + 10 + 15 + 15 + 10 = 70\<close>, level \<open>high\<close>. The current year is not 40: the year of
  construction would be 0, which the code reads as unknown.
\<close>

theorem computeTransactScore_example:
  assumes "ownershipYears p = Some 20" and "absenteeOwner p" and "taxStatus p = ''delinquent''"
    and "yearBuilt p = Some (of_int cy - 40)" and "permitHistory p = []"
    and "equityEstimate p = None \<or> (\<exists>e. equityEstimate p = Some e \<and> e \<le> 50)"
    and "listingStatus p \<noteq> ''off_market''" and "r \<noteq> Some True" and "cy \<noteq> 40"
  shows "score (computeTransactScore cy gy p r) = 70
         \<and> level (computeTransactScore cy gy p r) = ''high''"
  using assms by (auto simp: transact_defs)

theorem computeTransactScore_example_witness:
  "score (computeTransactScore 2026 noDates
            (exampleProperty\<lparr>absenteeOwner := True, taxStatus := ''delinquent''\<rparr>) None) = 70
   \<and> level (computeTransactScore 2026 noDates
            (exampleProperty\<lparr>absenteeOwner := True, taxStatus := ''delinquent''\<rparr>) None)
       = ''high''"
  using computeTransactScore_example
    [of "exampleProperty\<lparr>absenteeOwner := True, taxStatus := ''delinquent''\<rparr>" 2026 None noDates]
  by (simp add: exampleProperty_def)

section \<open>Properties of the style similarity\<close>

text \<open>No list of the table names a property that the table inherits.\<close>

lemma table_no_inherited:
  "(k, xs) \<in> set STYLE_SIMILARITY \<Longrightarrow> ''constructor'' \<notin> set xs \<and> ''__proto__'' \<notin> set xs"
  unfolding STYLE_SIMILARITY_def by auto

lemma related_not_inherited:
  assumes "lookupRelated k = Related ys" and "lookupRelated x = Inherited"
  shows "x \<notin> set ys"
proof -
  from assms(2) have x: "x = ''constructor'' \<or> x = ''__proto__''"
    by (auto simp: lookupRelated_def split: if_splits option.splits)
  from assms(1) have "ys = [] \<or> (k, ys) \<in> set STYLE_SIMILARITY"
    by (auto simp: lookupRelated_def split: if_splits option.splits dest: map_of_SomeD)
  with x show ?thesis
    using table_no_inherited[of k ys] by auto
qed

text \<open>
  \<open>styleSimilarity\<close> does not depend on the order of its arguments: the table is consulted
  in both directions. The two calls also agree when the lookup of an inherited property name
  makes them raise.
\<close>

lemma styleSimilarity_symmetric:
  "styleSimilarity a b = styleSimilarity b a
   \<and> styleSimilarity a b \<in> {Inr 1, Inr 0.5, Inr 0, Inl TypeError}"
proof (cases "normalizeStyle a = normalizeStyle b")
  case True
  then show ?thesis by (simp add: styleSimilarity_def)
next
  case False
  then have ne: "normalizeStyle b \<noteq> normalizeStyle a" by simp
  show ?thesis
  proof (cases "lookupRelated (normalizeStyle a)")
    case ra: (Related xs)
    show ?thesis
    proof (cases "lookupRelated (normalizeStyle b)")
      case (Related ys)
      with ra False ne show ?thesis
        by (auto simp: styleSimilarity_def includesStyle_def Let_def split: bool.splits)
    next
      case Inherited
      with ra False ne related_not_inherited[OF ra Inherited] show ?thesis
        by (auto simp: styleSimilarity_def includesStyle_def Let_def split: bool.splits)
    qed
  next
    case ia: Inherited
    show ?thesis
    proof (cases "lookupRelated (normalizeStyle b)")
      case (Related ys)
      with ia False ne related_not_inherited[OF Related ia] show ?thesis
        by (auto simp: styleSimilarity_def includesStyle_def Let_def split: bool.splits)
    next
      case Inherited
      with ia False ne show ?thesis
        by (auto simp: styleSimilarity_def includesStyle_def Let_def split: bool.splits)
    qed
  qed
qed

text \<open>
  \<open>ranch\<close> lists \<open>rambler\<close>, and \<open>rambler\<close> has no entry of its own: the two styles are
  related in either order.
\<close>

lemma styleSimilarity_either_order:
  "styleSimilarity ''rambler'' '' Ranch'' = Inr 0.5
   \<and> styleSimilarity '' Ranch'' ''rambler'' = Inr 0.5"
proof -
  have "styleSimilarity '' Ranch'' ''rambler'' = Inr 0.5"
    by code_simp
  then show ?thesis
    using styleSimilarity_symmetric[of "''rambler''" "'' Ranch''"] by simp
qed

text \<open>
  Claim C9. The claim is that \<open>styleSimilarity\<close> returns a value among 1, 0.5 and 0 for all
  style strings, the same in either order of the arguments. For the style \<open>constructor\<close>
  the function returns no value in either order: the table lookup yields the property
  inherited from \<open>Object.prototype\<close>, and the call of \<open>includes\<close> on it raises a
  \<open>TypeError\<close>. The same holds for \<open>__proto__\<close>.
\<close>

theorem styleSimilarity_inherited_name_raises:
  "styleSimilarity ''constructor'' ''ranch'' = Inl TypeError
   \<and> styleSimilarity ''ranch'' ''constructor'' = Inl TypeError
   \<and> styleSimilarity '' __PROTO__'' ''ranch'' = Inl TypeError
   \<and> styleSimilarity ''ranch'' '' __PROTO__'' = Inl TypeError"
  by code_simp

text \<open>
  The exception leaves \<open>bestStyleMatch\<close> and \<open>computeMatchScore\<close> without a result: a buyer
  whose list of styles contains \<open>constructor\<close> cannot be matched against a property of known
  style.
\<close>

lemma computeMatchScore_inherited_name_raises:
  "computeMatchScore exampleProperty (emptyIntent\<lparr>styles := [''constructor'']\<rparr>) = Inl TypeError"
proof -
  have "styleSimilarity ''constructor'' ''Craftsman'' = Inl TypeError"
    by code_simp
  then have "scoreStyle exampleProperty (emptyIntent\<lparr>styles := [''constructor'']\<rparr>)
               = Inl TypeError"
    by (simp add: scoreStyle_def bestStyleMatch_def exampleProperty_def emptyIntent_def)
  then show ?thesis
    by (simp add: computeMatchScore_def Let_def)
qed

section \<open>Properties of the weight redistribution\<close>

lemma foldl_add_sum_list:
  "foldl (\<lambda>sum k. sum + f k) a xs = a + sum_list (map f xs)" for a :: real
  by (induction xs arbitrary: a) simp_all

lemma sum_list_scaled_filter:
  "sum_list (map (\<lambda>k. if P k then f k / t else 0) xs) = sum_list (map f (filter P xs)) / t"
  for t :: real
  by (induction xs) (simp_all add: add_divide_distrib)

lemma factor_in_keys: "k \<in> set factorKeys"
  by (cases k) (simp_all add: factorKeys_def)

lemma BASE_WEIGHTS_pos: "0 < BASE_WEIGHTS k"
  by (cases k) simp_all

lemma sum_list_BASE_WEIGHTS_nonneg: "0 \<le> sum_list (map BASE_WEIGHTS xs)"
  by (induction xs) (simp_all add: add_nonneg_nonneg less_imp_le[OF BASE_WEIGHTS_pos])

lemma sum_list_pos_nonempty:
  "xs \<noteq> [] \<Longrightarrow> 0 < sum_list (map BASE_WEIGHTS xs)"
  by (cases xs) (simp_all add: add_pos_nonneg BASE_WEIGHTS_pos sum_list_BASE_WEIGHTS_nonneg)

lemma BASE_WEIGHTS_sum: "sum_list (map BASE_WEIGHTS factorKeys) = 1"
  by (simp add: factorKeys_def)

text \<open>
  Claim C3. The base weights are 0.25 for location, 0.20 for budget, 0.20 for style, 0.15 for
  features, 0.10 for beds and baths and 0.10 for sqft. When the intent specifies at least one
  factor, every unspecified factor gets weight 0, every specified factor gets its base weight
  divided by the sum of the base weights of the specified factors, and the six weights sum
  to 1. When the budget is the only factor specified, its weight is 1.
\<close>

theorem getRedistributedWeights_normalized:
  assumes "\<exists>k. getSpecifiedFactors intent k"
  shows "map BASE_WEIGHTS factorKeys = [0.25, 0.2, 0.2, 0.15, 0.1, 0.1]
       \<and> (\<forall>k. getRedistributedWeights intent k =
             (if getSpecifiedFactors intent k
              then BASE_WEIGHTS k /
                   sum_list (map BASE_WEIGHTS (filter (getSpecifiedFactors intent) factorKeys))
              else 0))
       \<and> sum_list (map (getRedistributedWeights intent) factorKeys) = 1
       \<and> ((\<forall>k. getSpecifiedFactors intent k \<longleftrightarrow> k = Budget)
            \<longrightarrow> getRedistributedWeights intent Budget = 1)"
proof -
  define P where "P = getSpecifiedFactors intent"
  define t where "t = sum_list (map BASE_WEIGHTS (filter P factorKeys))"
  from assms obtain k0 where "P k0" by (auto simp: P_def)
  then have ne: "filter P factorKeys \<noteq> []"
    using factor_in_keys[of k0] by (auto simp: filter_empty_conv)
  then have tpos: "0 < t"
    unfolding t_def by (rule sum_list_pos_nonempty)
  have w: "getRedistributedWeights intent = (\<lambda>k. if P k then BASE_WEIGHTS k / t else 0)"
    using ne unfolding P_def t_def
    by (simp add: getRedistributedWeights_def Let_def foldl_add_sum_list)
  have s: "sum_list (map (getRedistributedWeights intent) factorKeys) = 1"
    using tpos by (simp add: w sum_list_scaled_filter t_def[symmetric])
  have b: "getRedistributedWeights intent Budget = 1" if "\<forall>k. P k \<longleftrightarrow> k = Budget"
  proof -
    have "filter P factorKeys = [Budget]"
      unfolding factorKeys_def by (simp add: that)
    then show ?thesis
      using that by (simp add: w t_def)
  qed
  have base: "map BASE_WEIGHTS factorKeys = [0.25, 0.2, 0.2, 0.15, 0.1, 0.1]"
    by (simp add: factorKeys_def)
  show ?thesis
    using s b base by (simp add: w P_def t_def)
qed

text \<open>An intent with a maximum budget only: the weights are 0, 1, 0, 0, 0, 0.\<close>

theorem getRedistributedWeights_normalized_witness:
  "(\<exists>k. getSpecifiedFactors budgetIntent k)
   \<and> map (getRedistributedWeights budgetIntent) factorKeys = [0, 1, 0, 0, 0, 0]
   \<and> sum_list (map (getRedistributedWeights budgetIntent) factorKeys) = 1"
proof -
  have h: "\<exists>k. getSpecifiedFactors budgetIntent k"
    by (rule exI[of _ Budget]) (simp add: budgetIntent_def emptyIntent_def)
  have only: "\<forall>k. getSpecifiedFactors budgetIntent k \<longleftrightarrow> k = Budget"
  proof
    fix k show "getSpecifiedFactors budgetIntent k \<longleftrightarrow> k = Budget"
      by (cases k) (simp_all add: budgetIntent_def emptyIntent_def)
  qed
  have f: "filter (getSpecifiedFactors budgetIntent) factorKeys = [Budget]"
    by (simp add: factorKeys_def budgetIntent_def emptyIntent_def)
  note nrm = getRedistributedWeights_normalized[OF h]
  from nrm have c1: "getRedistributedWeights budgetIntent k =
             (if getSpecifiedFactors budgetIntent k
              then BASE_WEIGHTS k /
                   sum_list (map BASE_WEIGHTS (filter (getSpecifiedFactors budgetIntent) factorKeys))
              else 0)" for k
    by blast
  from nrm have c2: "sum_list (map (getRedistributedWeights budgetIntent) factorKeys) = 1"
    by blast
  have v: "getRedistributedWeights budgetIntent k = (if k = Budget then 1 else 0)" for k
    by (subst c1) (simp add: f only)
  have m: "map (getRedistributedWeights budgetIntent) factorKeys = [0, 1, 0, 0, 0, 0]"
    by (simp add: v factorKeys_def)
  from h m c2 show ?thesis
    by blast
qed

section \<open>Properties of the match score\<close>

lemma round2_50: "round2 50 = 50"
  by (simp add: round2_def)

lemma weights_unspecified:
  assumes "\<forall>k. \<not> getSpecifiedFactors i k"
  shows "getRedistributedWeights i = BASE_WEIGHTS"
  using assms by (simp add: getRedistributedWeights_def Let_def)

lemma round2_100: "round2 100 = 100"
  by (simp add: round2_def)

lemma round2_0: "round2 0 = 0"
  by (simp add: round2_def)

text \<open>
  Claim C4. For an intent that states no preference at all (no target location, no style, no
  feature, no bound on budget, beds, baths or sqft) the match score of every property is
  exactly 50: each of the six sub-scores is the neutral 50, and the weights are the base
  weights, which sum to 1.
\<close>

theorem computeMatchScore_neutral:
  assumes "locations i = []" and "styles i = []" and "intent_features i = []"
    and "range_min (budget i) = None" and "range_max (budget i) = None"
    and "range_min (beds i) = None" and "range_max (beds i) = None"
    and "range_min (baths i) = None" and "range_max (baths i) = None"
    and "range_min (intent_sqft i) = None" and "range_max (intent_sqft i) = None"
  shows "\<exists>r. computeMatchScore p i = Inr r \<and> result_score r = 50
             \<and> map factor_score (factors (explanation r)) = [50, 50, 50, 50, 50, 50]
             \<and> getRedistributedWeights i = BASE_WEIGHTS
             \<and> sum_list (map BASE_WEIGHTS factorKeys) = 1"
proof -
  have "\<not> getSpecifiedFactors i k" for k
    using assms by (cases k) simp_all
  then have w: "getRedistributedWeights i = BASE_WEIGHTS"
    by (simp add: weights_unspecified)
  have l: "scoreLocation p i = 50"
    using assms by (simp add: scoreLocation_def)
  have b: "scoreBudget p i = 50"
    using assms by (simp add: scoreBudget_def Let_def split: option.splits)
  have s: "scoreStyle p i = Inr 50"
    using assms by (simp add: scoreStyle_def)
  have f: "scoreFeatures p i = 50"
    using assms by (simp add: scoreFeatures_def)
  have bb: "scoreBedsBaths p i = 50"
    using assms by (simp add: scoreBedsBaths_def)
  have q: "scoreSqft p i = 50"
    using assms by (simp add: scoreSqft_def)
  show ?thesis
    by (simp add: computeMatchScore_def Let_def w l b s f bb q mkFactor_def round2_50
        factorKeys_def)
qed

theorem computeMatchScore_neutral_witness:
  "\<exists>r. computeMatchScore exampleProperty emptyIntent = Inr r \<and> result_score r = 50"
proof -
  have "\<exists>r. computeMatchScore exampleProperty emptyIntent = Inr r \<and> result_score r = 50
             \<and> map factor_score (factors (explanation r)) = [50, 50, 50, 50, 50, 50]
             \<and> getRedistributedWeights emptyIntent = BASE_WEIGHTS
             \<and> sum_list (map BASE_WEIGHTS factorKeys) = 1"
    by (rule computeMatchScore_neutral) (simp_all add: emptyIntent_def)
  then show ?thesis by blast
qed

text \<open>The factors of a result carry the six sub-scores, in the order of the source.\<close>

lemma computeMatchScore_factors:
  assumes "computeMatchScore p i = Inr r"
  shows "\<exists>st. scoreStyle p i = Inr st
            \<and> map factor_score (factors (explanation r)) =
                [scoreLocation p i, scoreBudget p i, st, scoreFeatures p i,
                 scoreBedsBaths p i, scoreSqft p i]"
  using assms
  by (auto simp: computeMatchScore_def Let_def mkFactor_def split: sum.splits)

text \<open>
  Claim C10. A numeric zero is read as an absent value: when the listing price is null or 0
  and the estimated value is null or 0, the Budget sub-score is the neutral 50, whatever
  budget the intent states; and a property with sqft 0 gets the neutral Sqft sub-score 50,
  whatever range the intent states. The same holds of the Budget and Sqft factors in the
  result of \<open>computeMatchScore\<close>.
\<close>

theorem zero_is_absent:
  "((listingPrice p = None \<or> listingPrice p = Some 0)
      \<and> (estimatedValue p = None \<or> estimatedValue p = Some 0)
      \<longrightarrow> scoreBudget p i = 50
          \<and> (\<forall>r. computeMatchScore p i = Inr r
                \<longrightarrow> map factor_score (factors (explanation r)) ! 1 = 50))
   \<and> (sqft p = 0
      \<longrightarrow> scoreSqft p i = 50
          \<and> (\<forall>r. computeMatchScore p i = Inr r
                \<longrightarrow> map factor_score (factors (explanation r)) ! 5 = 50))"
proof -
  have b: "scoreBudget p i = 50"
    if "listingPrice p = None \<or> listingPrice p = Some 0"
      "estimatedValue p = None \<or> estimatedValue p = Some 0"
    using that by (auto simp: scoreBudget_def Let_def split: option.splits)
  have q: "scoreSqft p i = 50" if "sqft p = 0"
    using that by (simp add: scoreSqft_def)
  have f1: "map factor_score (factors (explanation r)) ! 1 = scoreBudget p i"
    and f5: "map factor_score (factors (explanation r)) ! 5 = scoreSqft p i"
    if "computeMatchScore p i = Inr r" for r
    using computeMatchScore_factors[OF that] by auto
  show ?thesis
    using b q f1 f5 by metis
qed

theorem zero_is_absent_witness:
  "scoreBudget zeroProperty styleIntent = 50 \<and> scoreSqft zeroProperty styleIntent = 50
   \<and> (\<exists>r. computeMatchScore zeroProperty budgetIntent = Inr r
          \<and> map factor_score (factors (explanation r)) ! 1 = 50
          \<and> map factor_score (factors (explanation r)) ! 5 = 50)
   \<and> scoreBudget (exampleProperty\<lparr>estimatedValue := Some 0\<rparr>) budgetIntent = 50"
proof -
  have h: "listingPrice zeroProperty = Some 0" "estimatedValue zeroProperty = None"
    "sqft zeroProperty = 0"
    by (simp_all add: zeroProperty_def)
  have s: "scoreStyle zeroProperty budgetIntent = Inr 50"
    by (simp add: scoreStyle_def budgetIntent_def emptyIntent_def)
  then obtain r where r: "computeMatchScore zeroProperty budgetIntent = Inr r"
    by (simp add: computeMatchScore_def Let_def)
  from zero_is_absent[of zeroProperty styleIntent] h
  have a: "scoreBudget zeroProperty styleIntent = 50 \<and> scoreSqft zeroProperty styleIntent = 50"
    by simp
  from zero_is_absent[of zeroProperty budgetIntent] h r
  have b: "map factor_score (factors (explanation r)) ! 1 = 50
           \<and> map factor_score (factors (explanation r)) ! 5 = 50"
    by simp
  from zero_is_absent[of "exampleProperty\<lparr>estimatedValue := Some 0\<rparr>" budgetIntent]
  have c: "scoreBudget (exampleProperty\<lparr>estimatedValue := Some 0\<rparr>) budgetIntent = 50"
    by (simp add: exampleProperty_def)
  from a b c r show ?thesis by blast
qed


text \<open>
  Claim C1, as stated, fails below the minimum: a property of 1000 sqft against a minimum of
  2000 sqft, half the minimum, scores 50 and not 0.
\<close>

theorem scoreSqft_half_min_counterexample:
  "range_min (intent_sqft minSqftIntent) = Some 2000
   \<and> sqft (exampleProperty\<lparr>sqft := 1000\<rparr>) = 2000 / 2
   \<and> scoreSqft (exampleProperty\<lparr>sqft := 1000\<rparr>) minSqftIntent = 50
   \<and> scoreSqft (exampleProperty\<lparr>sqft := 1000\<rparr>) minSqftIntent \<noteq> 0"
  by (simp add: scoreSqft_def minSqftIntent_def emptyIntent_def linearDecay_def)

text \<open>
  Claim C1, amended. For a property of known, positive sqft: above a positive maximum (and
  not below the minimum) the Sqft sub-score is \<open>max(0, 100 * (1 - (sqft - max) / max))\<close>,
  which decays linearly and is 0 from double the maximum on; below the minimum it is
  \<open>100 * sqft / min\<close>, which is 50 at half the minimum and positive for every positive
  sqft.
\<close>

theorem scoreSqft_decay:
  assumes "0 < sqft p"
  shows "(range_max (intent_sqft i) = Some mx \<and> 0 < mx \<and> mx < sqft p
            \<and> (\<forall>m. range_min (intent_sqft i) = Some m \<longrightarrow> m \<le> sqft p)
          \<longrightarrow> scoreSqft p i = max 0 (100 * (1 - (sqft p - mx) / mx))
              \<and> (2 * mx \<le> sqft p \<longrightarrow> scoreSqft p i = 0))
       \<and> (range_min (intent_sqft i) = Some mn \<and> sqft p < mn
          \<longrightarrow> scoreSqft p i = 100 * sqft p / mn \<and> 0 < scoreSqft p i
              \<and> (sqft p = mn / 2 \<longrightarrow> scoreSqft p i = 50))"
proof -
  have above: "scoreSqft p i = max 0 (100 * (1 - (sqft p - mx) / mx))
                 \<and> (2 * mx \<le> sqft p \<longrightarrow> scoreSqft p i = 0)"
    if "range_max (intent_sqft i) = Some mx" "0 < mx" "mx < sqft p"
      "\<forall>m. range_min (intent_sqft i) = Some m \<longrightarrow> m \<le> sqft p"
  proof -
    have e: "scoreSqft p i = max 0 (100 * (1 - (sqft p - mx) / mx))"
      using that assms by (auto simp: scoreSqft_def linearDecay_def split: option.splits)
    have "100 * (1 - (sqft p - mx) / mx) \<le> 0" if "2 * mx \<le> sqft p"
      using that \<open>0 < mx\<close> by (simp add: field_simps)
    then show ?thesis using e by simp
  qed
  have below: "scoreSqft p i = 100 * sqft p / mn \<and> 0 < scoreSqft p i
                 \<and> (sqft p = mn / 2 \<longrightarrow> scoreSqft p i = 50)"
    if "range_min (intent_sqft i) = Some mn" "sqft p < mn"
  proof -
    have mnpos: "0 < mn" using that assms by simp
    have "scoreSqft p i = linearDecay (mn - sqft p) mn"
      using that assms by (auto simp: scoreSqft_def split: option.splits)
    also have "\<dots> = 100 * sqft p / mn"
      using mnpos assms by (simp add: linearDecay_def field_simps max_def)
    finally have e: "scoreSqft p i = 100 * sqft p / mn" .
    have pos: "0 < 100 * sqft p / mn"
      using mnpos assms by simp
    have half: "100 * sqft p / mn = 50" if "sqft p = mn / 2"
      unfolding that using mnpos by simp
    show ?thesis using e pos half by simp
  qed
  from above below show ?thesis by blast
qed

text \<open>
  Against a maximum of 1200 sqft, 2400 sqft scores 0 and 1500 sqft scores 75; against a
  minimum of 2000 sqft, 1000 sqft scores 50.
\<close>

theorem scoreSqft_decay_witness:
  "scoreSqft (exampleProperty\<lparr>sqft := 2400\<rparr>) maxSqftIntent = 0
   \<and> scoreSqft (exampleProperty\<lparr>sqft := 1500\<rparr>) maxSqftIntent = 75
   \<and> scoreSqft (exampleProperty\<lparr>sqft := 1000\<rparr>) minSqftIntent = 50"
  using scoreSqft_decay[of "exampleProperty\<lparr>sqft := 2400\<rparr>" maxSqftIntent 1200 0]
    scoreSqft_decay[of "exampleProperty\<lparr>sqft := 1500\<rparr>" maxSqftIntent 1200 0]
    scoreSqft_decay[of "exampleProperty\<lparr>sqft := 1000\<rparr>" minSqftIntent 0 2000]
  by (simp add: exampleProperty_def maxSqftIntent_def minSqftIntent_def emptyIntent_def)

text \<open>
  Claim C8. For a property without listing price, estimated value and architectural style
  and with unknown sqft, and for every intent, \<open>computeMatchScore\<close> returns a result: no
  sub-scorer raises. The Budget and Sqft factors take the neutral 50, the Style factor takes
  50 when no style is wanted and 25 otherwise; the other three factors do not read the missing
  fields. (The year of construction is not read by the match score.)
\<close>

theorem computeMatchScore_missing_fields:
  assumes "listingPrice p = None" and "estimatedValue p = None"
    and "architecturalStyle p = None" and "sqft p = 0"
  shows "\<exists>r. computeMatchScore p i = Inr r
             \<and> map factor_score (factors (explanation r)) =
                 [scoreLocation p i, 50, if styles i = [] then 50 else 25,
                  scoreFeatures p i, scoreBedsBaths p i, 50]"
proof -
  have b: "scoreBudget p i = 50"
    using assms by (simp add: scoreBudget_def)
  have s: "scoreStyle p i = Inr (if styles i = [] then 50 else 25)"
    using assms by (simp add: scoreStyle_def)
  have q: "scoreSqft p i = 50"
    using assms by (simp add: scoreSqft_def)
  show ?thesis
    by (simp add: computeMatchScore_def Let_def b s q mkFactor_def)
qed

theorem computeMatchScore_missing_fields_witness:
  "\<exists>r. computeMatchScore unknownProperty styleIntent = Inr r
       \<and> map factor_score (factors (explanation r)) = [50, 50, 25, 50, 50, 50]"
proof -
  have h: "listingPrice unknownProperty = None" "estimatedValue unknownProperty = None"
    "architecturalStyle unknownProperty = None" "sqft unknownProperty = 0"
    by (simp_all add: unknownProperty_def)
  have l: "scoreLocation unknownProperty styleIntent = 50"
    by (simp add: scoreLocation_def styleIntent_def budgetIntent_def emptyIntent_def)
  have f: "scoreFeatures unknownProperty styleIntent = 50"
    by (simp add: scoreFeatures_def styleIntent_def budgetIntent_def emptyIntent_def)
  have b: "scoreBedsBaths unknownProperty styleIntent = 50"
    by (simp add: scoreBedsBaths_def styleIntent_def budgetIntent_def emptyIntent_def)
  have s: "styles styleIntent \<noteq> []"
    by (simp add: styleIntent_def)
  from computeMatchScore_missing_fields[OF h, of styleIntent]
  show ?thesis
    by (simp add: l f b s)
qed

section \<open>Properties of the location score and of the ingestion filter\<close>

text \<open>
  A haversine term of at least a quarter means a central angle of at least 60 degrees.
\<close>

lemma atan2_far:
  assumes "1 / 4 \<le> a"
  shows "pi / 6 \<le> atan2 (sqrt a) (sqrt (1 - a))"
proof -
  have sa: "1 / 2 \<le> sqrt a"
    using assms real_le_rsqrt[of "1/2" a] by (simp add: power2_eq_square)
  consider "0 < 1 - a" | "1 - a = 0" | "1 - a < 0" by linarith
  then show ?thesis
  proof cases
    case 1
    then have x: "0 < sqrt (1 - a)" by simp
    have "1 - a \<le> 3 / 4" using assms by simp
    then have "sqrt (1 - a) \<le> sqrt (3 / 4)" by simp
    also have "\<dots> = sqrt 3 / 2" by (simp add: real_sqrt_divide)
    finally have xs: "sqrt (1 - a) \<le> sqrt 3 / 2" .
    have "1 / sqrt 3 = (1 / 2) / (sqrt 3 / 2)" by simp
    also have "\<dots> \<le> sqrt a / (sqrt 3 / 2)"
      using sa by (simp add: divide_right_mono)
    also have "\<dots> \<le> sqrt a / sqrt (1 - a)"
    proof (rule divide_left_mono)
      show "sqrt (1 - a) \<le> sqrt 3 / 2" by (rule xs)
      show "0 \<le> sqrt a" using sa by linarith
      show "0 < sqrt 3 / 2 * sqrt (1 - a)" using x by simp
    qed
    finally have "tan (pi / 6) \<le> sqrt a / sqrt (1 - a)"
      by (simp add: tan_30)
    then have "arctan (tan (pi / 6)) \<le> arctan (sqrt a / sqrt (1 - a))"
      by (simp add: arctan_le_iff)
    moreover have "arctan (tan (pi / 6)) = pi / 6"
      by (rule arctan_tan) (use pi_gt_zero in auto)
    ultimately show ?thesis using x by (simp add: atan2_def)
  next
    case 2
    then have "a = 1" by simp
    then show ?thesis by (simp add: atan2_def)
  next
    case 3
    then have x: "sqrt (1 - a) < 0" by simp
    have "- (pi / 2) < arctan (sqrt a / sqrt (1 - a))" by (rule arctan_lbound)
    then have "pi / 6 \<le> arctan (sqrt a / sqrt (1 - a)) + pi"
      using pi_gt_zero by linarith
    moreover have "0 \<le> sqrt a" using sa by linarith
    ultimately show ?thesis using x by (simp add: atan2_def)
  qed
qed

text \<open>The point \<open>(0, 0)\<close> is more than four miles from Seattle.\<close>

lemma seattle_far: "4 < haversineDistance 0 0 47.6062 (-122.3321)"
proof -
  define a where "a = sin (toRadians (47.6062 - 0) / 2) * sin (toRadians (47.6062 - 0) / 2) +
              cos (toRadians 0) * cos (toRadians 47.6062) *
              sin (toRadians (-122.3321 - 0) / 2) * sin (toRadians (-122.3321 - 0) / 2)"
  have c: "1 / 2 \<le> cos (toRadians 47.6062)"
  proof -
    have "cos (pi / 3) \<le> cos (toRadians 47.6062)"
      by (rule cos_monotone_0_pi_le) (use pi_gt_zero in \<open>auto simp: toRadians_def\<close>)
    then show ?thesis by (simp add: cos_60)
  qed
  have s: "sqrt 2 / 2 \<le> sin (1223321 / 20000 * (pi / 180))"
  proof -
    have "sin (pi / 4) \<le> sin (1223321 / 20000 * (pi / 180))"
      by (rule sin_monotone_2pi_le) (use pi_gt_zero in auto)
    then show ?thesis by (simp add: sin_45)
  qed
  have "1 / 2 = (sqrt 2 / 2) * (sqrt 2 / 2)" by simp
  also have "\<dots> \<le> sin (1223321 / 20000 * (pi / 180)) * sin (1223321 / 20000 * (pi / 180))"
  proof (rule mult_mono)
    have "0 \<le> sqrt 2 / 2" by simp
    then show "0 \<le> sin (1223321 / 20000 * (pi / 180))" using s by linarith
  qed (use s in simp_all)
  finally have s2: "1 / 2 \<le> sin (1223321 / 20000 * (pi / 180)) * sin (1223321 / 20000 * (pi / 180))" .
  have sm: "sin (toRadians (-122.3321 - 0) / 2) * sin (toRadians (-122.3321 - 0) / 2)
          = sin (1223321 / 20000 * (pi / 180)) * sin (1223321 / 20000 * (pi / 180))"
  proof -
    have "toRadians (-122.3321 - 0) / 2 = - (1223321 / 20000 * (pi / 180))"
      by (simp add: toRadians_def)
    then show ?thesis by simp
  qed
  have "(1 / 4 :: real) = 0 + (1 / 2) * (1 / 2)" by simp
  also have "\<dots> \<le> sin (toRadians (47.6062 - 0) / 2) * sin (toRadians (47.6062 - 0) / 2)
                  + cos (toRadians 47.6062) * 
                    (sin (toRadians (-122.3321 - 0) / 2) * sin (toRadians (-122.3321 - 0) / 2))"
    unfolding sm using c s2 by (intro add_mono mult_mono) auto
  also have "\<dots> = a"
    by (simp add: a_def toRadians_def)
  finally have "1 / 4 \<le> a" .
  then have "pi / 6 \<le> atan2 (sqrt a) (sqrt (1 - a))"
    by (rule atan2_far)
  moreover have "haversineDistance 0 0 47.6062 (-122.3321)
                   = EARTH_RADIUS_MILES * (2 * atan2 (sqrt a) (sqrt (1 - a)))"
    by (simp add: haversineDistance_def Let_def a_def)
  ultimately show ?thesis
    using pi_ge_two by (simp add: EARTH_RADIUS_MILES_def)
qed


text \<open>
  Claim C2, as stated, fails: \<open>scoreLocation\<close> has no case for an unknown location. A
  property at \<open>(0, 0)\<close> is scored by its distance from the point \<open>(0, 0)\<close> to the target,
  and against a target in Seattle it gets the location score 0.
\<close>

theorem scoreLocation_origin_counterexample:
  "lat nowhereProperty = 0 \<and> lng nowhereProperty = 0
   \<and> locations seattleIntent = [seattleTarget]
   \<and> scoreLocation nowhereProperty seattleIntent
       = locScore (haversineDistance 0 0 (loc_lat seattleTarget) (loc_lng seattleTarget)) 2
   \<and> scoreLocation nowhereProperty seattleIntent = 0"
proof -
  have t: "targetScore nowhereProperty seattleTarget
             = locScore (haversineDistance 0 0 (loc_lat seattleTarget) (loc_lng seattleTarget)) 2"
    by (simp add: targetScore_def nowhereProperty_def seattleTarget_def Let_def)
  have z: "locScore (haversineDistance 0 0 (loc_lat seattleTarget) (loc_lng seattleTarget)) 2 = 0"
    using seattle_far by (simp add: locScore_def seattleTarget_def)
  have "scoreLocation nowhereProperty seattleIntent = 0"
    by (simp add: scoreLocation_def seattleIntent_def emptyIntent_def Let_def t z)
  then show ?thesis
    by (simp add: z) (simp add: nowhereProperty_def seattleIntent_def emptyIntent_def)
qed

lemma transformLoop_usable:
  "set (fst (transformLoop transform parcels acc)) \<subseteq> set (fst acc) \<union> {p. usable p}"
proof (induction parcels arbitrary: acc)
  case Nil
  then show ?case by simp
next
  case (Cons parcel rest)
  show ?case
    using Cons.IH[of "case transform parcel of
          Inl msg \<Rightarrow> (fst acc, snd acc @ [''Transform: '' @ msg])
        | Inr prop \<Rightarrow> if usable prop then (fst acc @ [prop], snd acc) else acc"]
    by (auto split: sum.splits if_splits)
qed

lemma best_fold_Max:
  "foldl (\<lambda>bestScore loc. let s = f loc in if s > bestScore then s else bestScore) b locs
     = Max (insert b (f ` set locs))" for b :: real
proof (induction locs arbitrary: b)
  case Nil
  then show ?case by simp
next
  case (Cons x xs)
  have "Max (insert b (f ` set (x # xs))) = Max (insert (max b (f x)) (f ` set xs))"
  proof (cases "xs = []")
    case True
    then show ?thesis by (simp add: max.commute)
  next
    case False
    then have ne: "f ` set xs \<noteq> {}" by simp
    have "Max (insert b (insert (f x) (f ` set xs))) = max b (max (f x) (Max (f ` set xs)))"
      using ne by simp
    also have "\<dots> = max (max b (f x)) (Max (f ` set xs))"
      by (simp add: max.assoc)
    also have "\<dots> = Max (insert (max b (f x)) (f ` set xs))"
      using ne by simp
    finally show ?thesis by simp
  qed
  moreover have "(if f x > b then f x else b) = max b (f x)"
    by (simp add: max_def)
  ultimately show ?case
    using Cons.IH[of "max b (f x)"] by (simp add: Let_def)
qed

text \<open>
  Claim C2, amended. The coordinates \<open>(0, 0)\<close> of an unknown location are excluded at
  ingestion: no property that \<open>ingestKingCountyProperties\<close> returns has latitude 0 or
  longitude 0. The scorer itself does not exclude them: for a property at \<open>(0, 0)\<close> and an
  intent with a target location, the Location sub-score is the best, over the targets, of the
  distance score of the haversine distance from \<open>(0, 0)\<close> to the target.
\<close>

theorem unknown_location_excluded_at_ingestion:
  "(\<forall>q \<in> set (ingested (ingestKingCountyProperties transform parcels salesErrors)).
       lat q \<noteq> 0 \<and> lng q \<noteq> 0)
   \<and> (lat p = 0 \<and> lng p = 0 \<and> locations i \<noteq> []
       \<longrightarrow> scoreLocation p i =
             Max (insert 0 ((\<lambda>loc. locScore (haversineDistance 0 0 (loc_lat loc) (loc_lng loc))
                                     (if radiusMiles loc = 0 then 2 else radiusMiles loc))
                              ` set (locations i))))"
proof -
  have a: "lat q \<noteq> 0 \<and> lng q \<noteq> 0"
    if "q \<in> set (ingested (ingestKingCountyProperties transform parcels salesErrors))" for q
    using that transformLoop_usable[of transform parcels "([], salesErrors)"]
    by (auto simp: ingestKingCountyProperties_def Let_def usable_def)
  have b: "scoreLocation p i =
             Max (insert 0 ((\<lambda>loc. locScore (haversineDistance 0 0 (loc_lat loc) (loc_lng loc))
                                     (if radiusMiles loc = 0 then 2 else radiusMiles loc))
                              ` set (locations i)))"
    if "lat p = 0" "lng p = 0" "locations i \<noteq> []"
  proof -
    have "targetScore p = (\<lambda>loc. locScore (haversineDistance 0 0 (loc_lat loc) (loc_lng loc))
                                     (if radiusMiles loc = 0 then 2 else radiusMiles loc))"
      using that by (simp add: targetScore_def Let_def fun_eq_iff)
    then show ?thesis
      using that best_fold_Max[of "targetScore p" 0 "locations i"]
      by (simp add: scoreLocation_def)
  qed
  from a b show ?thesis by blast
qed

theorem unknown_location_excluded_at_ingestion_witness:
  "ingested (ingestKingCountyProperties Inr [nowhereProperty, exampleProperty] [])
     = [exampleProperty]
   \<and> lat exampleProperty \<noteq> 0 \<and> lng exampleProperty \<noteq> 0
   \<and> lat nowhereProperty = 0 \<and> lng nowhereProperty = 0 \<and> locations seattleIntent \<noteq> []
   \<and> scoreLocation nowhereProperty seattleIntent =
        Max {0, locScore (haversineDistance 0 0 47.6062 (-122.3321)) 2}"
proof -
  have i: "ingested (ingestKingCountyProperties Inr [nowhereProperty, exampleProperty] [])
     = [exampleProperty]"
    by (simp add: ingestKingCountyProperties_def Let_def usable_def nowhereProperty_def
        exampleProperty_def)
  have h: "lat nowhereProperty = 0 \<and> lng nowhereProperty = 0 \<and> locations seattleIntent \<noteq> []"
    by (simp add: nowhereProperty_def seattleIntent_def emptyIntent_def)
  from unknown_location_excluded_at_ingestion
         [of Inr "[nowhereProperty, exampleProperty]" "[]" nowhereProperty seattleIntent] i h
  show ?thesis
    by (simp add: seattleIntent_def emptyIntent_def seattleTarget_def)
qed

section \<open>Properties of the ranking\<close>

lemma slice_set: "set (slice xs a b) \<subseteq> set xs"
  unfolding slice_def Let_def
  by (meson set_take_subset set_drop_subset subset_trans)

lemma slice_sorted_wrt: "sorted_wrt P xs \<Longrightarrow> sorted_wrt P (slice xs a b)"
  unfolding slice_def Let_def
  by (simp add: sorted_wrt_take sorted_wrt_drop)

text \<open>
  Claim C5. Every result that \<open>searchProperties\<close> returns has a match score of at least
  25, and the returned results are in non-increasing order of the composite key
  \<open>0.7 * matchScore + 0.3 * transactNumeric\<close>, where the transact level \<open>high\<close> counts
  100, \<open>medium\<close> 50, \<open>low\<close> 20 and anything else 0; for every intent, collection and page.
\<close>

theorem searchProperties_ranked:
  assumes "searchProperties cy gy props intent pg = Inr res"
  shows "(\<forall>r \<in> set (results res). matchScore r \<ge> 25)
       \<and> sorted_wrt (\<lambda>a b. weighted a \<ge> weighted b) (results res)
       \<and> (\<forall>r. weighted r = 0.7 * matchScore r + 0.3 *
               (if transactScore r = ''high'' then 100
                else if transactScore r = ''medium'' then 50
                else if transactScore r = ''low'' then 20 else 0))"
proof -
  from assms obtain scored where sc: "scoreAll cy gy intent props = Inr scored"
    by (auto simp: searchProperties_def split: sum.splits)
  define filtered where "filtered = filter (\<lambda>r. matchScore r \<ge> MIN_MATCH_SCORE) scored"
  define ranked where "ranked = sort_key (\<lambda>r. - weighted r) filtered"
  have res: "results res = slice ranked ((pg - 1) * real PAGE_SIZE)
                             ((pg - 1) * real PAGE_SIZE + real PAGE_SIZE)"
    using assms sc by (auto simp: searchProperties_def Let_def ranked_def filtered_def)
  have "set ranked = set filtered"
    by (simp add: ranked_def)
  then have m: "\<forall>r \<in> set ranked. matchScore r \<ge> 25"
    by (simp add: filtered_def MIN_MATCH_SCORE_def)
  have "sorted (map (\<lambda>r. - weighted r) ranked)"
    unfolding ranked_def by (rule sorted_sort_key)
  then have s: "sorted_wrt (\<lambda>a b. weighted a \<ge> weighted b) ranked"
    by (simp add: sorted_map)
  have w: "weighted r = 0.7 * matchScore r + 0.3 *
               (if transactScore r = ''high'' then 100
                else if transactScore r = ''medium'' then 50
                else if transactScore r = ''low'' then 20 else 0)" for r
    by (simp add: weighted_def transactToNumeric_def)
  show ?thesis
    using m s slice_set[of ranked] slice_sorted_wrt[OF s] w unfolding res by blast
qed


lemma budgetIntent_weights:
  "getRedistributedWeights budgetIntent k = (if k = Budget then 1 else 0)"
  by (cases k) (simp_all add: getRedistributedWeights_def budgetIntent_def emptyIntent_def
      factorKeys_def Let_def)

lemma budgetIntent_match:
  assumes "listingPrice p = Some v \<or> (listingPrice p = None \<and> estimatedValue p = Some v)"
    and "0 < v"
  shows "\<exists>m. computeMatchScore p budgetIntent = Inr m
             \<and> result_score m = round2 (if v > 1000000 then linearDecay (v - 1000000) 1000000
                                         else 100)"
proof -
  have b: "scoreBudget p budgetIntent =
             (if v > 1000000 then linearDecay (v - 1000000) 1000000 else 100)"
    using assms by (auto simp: scoreBudget_def budgetIntent_def emptyIntent_def Let_def)
  have s: "scoreStyle p budgetIntent = Inr 50"
    by (simp add: scoreStyle_def budgetIntent_def emptyIntent_def)
  show ?thesis
    by (simp add: computeMatchScore_def Let_def s b budgetIntent_weights)
qed

text \<open>
  Three listings against a maximum budget of one million: the one at 2.5 million scores 0 and
  is dropped, the one at 900 000 (score 100, level medium, key 85) comes before the one at
  1.5 million (score 50, level high, key 65).
\<close>

theorem searchProperties_ranked_witness:
  "\<exists>res. searchProperties 2026 noDates [dearProperty, midProperty, exampleProperty]
            budgetIntent 1 = Inr res
     \<and> map matchScore (results res) = [100, 50]
     \<and> map weighted (results res) = [85, 65]
     \<and> sorted_wrt (\<lambda>a b. weighted a \<ge> weighted b) (results res)"
proof -
  obtain m1 where m1: "computeMatchScore dearProperty budgetIntent = Inr m1"
      "result_score m1 = 0"
    using budgetIntent_match[of dearProperty 2500000]
    by (auto simp: dearProperty_def exampleProperty_def linearDecay_def round2_0)
  obtain m2 where m2: "computeMatchScore midProperty budgetIntent = Inr m2"
      "result_score m2 = 50"
    using budgetIntent_match[of midProperty 1500000]
    by (auto simp: midProperty_def exampleProperty_def linearDecay_def round2_50)
  obtain m3 where m3: "computeMatchScore exampleProperty budgetIntent = Inr m3"
      "result_score m3 = 100"
    using budgetIntent_match[of exampleProperty 900000]
    by (auto simp: exampleProperty_def round2_100)
  have l2: "level (computeTransactScore 2026 noDates midProperty None) = ''high''"
    by (simp add: transact_defs midProperty_def exampleProperty_def)
  have l3: "level (computeTransactScore 2026 noDates exampleProperty None) = ''medium''"
    by (simp add: transact_defs exampleProperty_def)
  define res where "res = \<lparr> results =
        [\<lparr> sr_property = exampleProperty, matchScore = 100, transactScore = ''medium'',
           matchExplanation = explanation m3 \<rparr>,
         \<lparr> sr_property = midProperty, matchScore = 50, transactScore = ''high'',
           matchExplanation = explanation m2 \<rparr>],
       total = 2, sp_page = 1, pageSize = 25 \<rparr>"
  have e: "searchProperties 2026 noDates [dearProperty, midProperty, exampleProperty]
            budgetIntent 1 = Inr res"
    by (simp add: searchProperties_def m1 m2 m3 l2 l3 Let_def MIN_MATCH_SCORE_def PAGE_SIZE_def
        weighted_def transactToNumeric_def slice_def relativeIndex_def toIntegerOrInfinity_def
        res_def)
  from searchProperties_ranked[OF e]
  have "sorted_wrt (\<lambda>a b. weighted a \<ge> weighted b) (results res)"
    by blast
  moreover have "map matchScore (results res) = [100, 50]"
    by (simp add: res_def)
  moreover have "map weighted (results res) = [85, 65]"
    by (simp add: res_def weighted_def transactToNumeric_def)
  ultimately show ?thesis
    using e by (intro exI[of _ res] conjI)
qed

end
